theory Spec2Isabelle
  imports Complex_Main "HOL-Library.Multiset" "HOL-Library.Monad_Syntax"
begin

section \<open>Data model\<close>

text \<open>
  A wide character is a code point; \<open>std::wstring\<close> is a list of them and
  \<open>std::string\<close> (the UTF-8 keys of the bloom filters) a list of bytes.
\<close>

type_synonym wchar = nat
type_synonym wstring = "wchar list"

text \<open>
  Modelled from the spec: \<open>struct TWord\<close> is declared in a header that is not among
  the sources. The spec describes a token as a view of a run of code points, two tokens being
  equal iff their code-point sequences match; a token is therefore its code-point sequence.
  The nil token (\<open>Ptr == nullptr\<close>) is \<open>None\<close> where a token may be nil, and the
  test \<open>c.Ptr && c.Len\<close> is "some token, and not the empty one".
\<close>

type_synonym TWord = wstring
type_synonym TWords = "TWord list"

record TScoredWord =
  Word :: TWord
  Score :: real

type_synonym TScoredWords = "TScoredWord list"

text \<open>
  The language model is an external collaborator (\<open>TLangModel\<close>, not among the sources).
  The engine uses it only through the calls below, which are taken as parameters.
  \<open>GetWordToId\<close> lists the keys of the vocabulary map in its iteration order.
  Scores and penalties are \<open>double\<close> in the source. A finite double is a real number, and
  doubles compare as the real numbers they are; the scores of the model are real numbers (NaN
  and the infinities are left out). The arithmetic of doubles rounds, so it is not the
  arithmetic of the real numbers: see \<open>DoubleSub\<close> and \<open>DoubleMul\<close> below.
\<close>

record TLangModel =
  GetWord :: "wstring \<Rightarrow> TWord option"
  GetWordIdNoCreate :: "TWord \<Rightarrow> nat"
  GetWordCount :: "nat \<Rightarrow> nat"
  GetWordToId :: "wstring list"
  GetAlphabet :: "wchar list"
  LM_Score :: "TWords \<Rightarrow> real"
  GetCheckSum :: nat

text \<open>
  Modelled from the spec: \<open>TBloomFilter\<close> (a class that is not among the sources) is the
  classical filter of section 4.A: a bit array of \<open>NumBits\<close> bits, of which \<open>Bits\<close> are
  set, and \<open>NumHashes\<close> hash functions.
\<close>

record TBloomFilter =
  NumBits :: nat
  NumHashes :: nat
  Bits :: "nat set"

text \<open>
  What the engine takes from code outside the sources and from the C++ library:
  \<^item> \<open>WideToUTF8\<close>, which throws on a code point it cannot convert (\<open>None\<close>);
  \<^item> the hash family of the bloom filter (the i-th hash of a key) and the constructor
    \<open>TBloomFilter(n, p)\<close>, whose size formulas are floating-point;
  \<^item> the iteration order of a \<open>std::unordered_set\<close>, a function of the sequence of
    insertions that built it;
  \<^item> \<open>std::sort\<close> on the scored candidates;
  \<^item> the difference and the product of two doubles as the machine computes them
    (\<open>x - y\<close> and \<open>x * y\<close> in the source), a literal standing for the double it
    denotes.
\<close>

record TRuntime =
  WideToUTF8 :: "wstring \<Rightarrow> string option"
  BloomHash :: "nat \<Rightarrow> string \<Rightarrow> nat"
  BloomNew :: "nat \<Rightarrow> rat \<Rightarrow> TBloomFilter"
  unordered_iter :: "TWords \<Rightarrow> TWords"
  std_sort :: "TScoredWords \<Rightarrow> TScoredWords"
  DoubleSub :: "real \<Rightarrow> real \<Rightarrow> real"
  DoubleMul :: "real \<Rightarrow> real \<Rightarrow> real"

text \<open>
  The engine. \<open>Deletes1\<close> and \<open>Deletes2\<close> are \<open>std::unique_ptr\<close>s, null
  (\<open>None\<close>) until a cache is built or loaded.
\<close>

record TSpellCorrector =
  LangModel :: TLangModel
  Deletes1 :: "TBloomFilter option"
  Deletes2 :: "TBloomFilter option"
  KnownWordsPenalty :: real
  UnknownWordsPenalty :: real
  MaxCandiatesToCheck :: nat

section \<open>Bloom filter\<close>

text \<open>
  Modelled from the spec: \<open>insert\<close> sets the bits derived from the hashes of the key,
  \<open>contains\<close> returns true iff all of them are set.
\<close>

definition BloomPositions :: "TRuntime \<Rightarrow> TBloomFilter \<Rightarrow> string \<Rightarrow> nat list" where
  "BloomPositions rt bf key = map (\<lambda>i. BloomHash rt i key mod NumBits bf) [0..<NumHashes bf]"

definition Insert :: "TRuntime \<Rightarrow> TBloomFilter \<Rightarrow> string \<Rightarrow> TBloomFilter" where
  "Insert rt bf key = bf\<lparr>Bits := Bits bf \<union> set (BloomPositions rt bf key)\<rparr>"

definition Contains :: "TRuntime \<Rightarrow> TBloomFilter \<Rightarrow> string \<Rightarrow> bool" where
  "Contains rt bf key = list_all (\<lambda>b. b \<in> Bits bf) (BloomPositions rt bf key)"

section \<open>Deletions\<close>

text \<open>\<open>GetDeletes1\<close>: the non-empty strings obtained by removing one character.\<close>

definition GetDeletes1 :: "wstring \<Rightarrow> wstring list" where
  "GetDeletes1 w =
     concat (map (\<lambda>i. let nw = take i w @ drop (i + 1) w in if nw \<noteq> [] then [nw] else [])
                 [0..<length w])"

text \<open>
  \<open>GetDeletes2\<close>: one group per non-empty single deletion \<open>nw\<close>, holding the single
  deletions of \<open>nw\<close> and then \<open>nw\<close> itself.
\<close>

definition GetDeletes2 :: "wstring \<Rightarrow> wstring list list" where
  "GetDeletes2 w =
     concat (map (\<lambda>i. let nw = take i w @ drop (i + 1) w
                       in if nw \<noteq> [] then [GetDeletes1 nw @ [nw]] else [])
                 [0..<length w])"

section \<open>Edit generators\<close>

text \<open>
  The recurring block \<open>TWord c = LangModel.GetWord(s); if (c.Ptr && c.Len) result.push_back(c)\<close>.
\<close>

definition Lookup :: "TLangModel \<Rightarrow> wstring \<Rightarrow> TWords" where
  "Lookup lm s = (case GetWord lm s of None \<Rightarrow> [] | Some c \<Rightarrow> if c \<noteq> [] then [c] else [])"

text \<open>
  \<open>Edits2\<close>: for each position the delete, the transposition, the replacements and the
  insertions, each looked up in the vocabulary. Unless \<open>lastLevel\<close>, the result of
  \<open>Edits2(TWord(s))\<close> is appended after each lookup; that nested call takes the default
  argument of the declaration (in the header, not among the sources). The default is taken
  to be \<open>true\<close>: with \<open>false\<close> the call \<open>Edits2(w)\<close> of the query would recurse forever.
  \<open>Edits2_at\<close> is the body of the loop at index \<open>i\<close>, \<open>deeper\<close> being what is appended
  after a lookup.
\<close>

definition Edits2_at :: "TLangModel \<Rightarrow> (wstring \<Rightarrow> TWords) \<Rightarrow> wstring \<Rightarrow> nat \<Rightarrow> TWords" where
  "Edits2_at lm deeper w i =
     (let visit = (\<lambda>s. Lookup lm s @ deeper s) in
      (if i < length w then visit (take i w @ drop (i + 1) w) else []) @
      (if i + 1 < length w
       then visit (take i w @ [w ! (i + 1)] @ [w ! i] @
                   (if i + 2 < length w then drop (i + 2) w else []))
       else []) @
      (if i < length w
       then concat (map (\<lambda>ch. visit (take i w @ [ch] @ drop (i + 1) w)) (GetAlphabet lm))
       else []) @
      concat (map (\<lambda>ch. visit (take i w @ [ch] @ drop i w)) (GetAlphabet lm)))"

definition Edits2_loop :: "TLangModel \<Rightarrow> (wstring \<Rightarrow> TWords) \<Rightarrow> wstring \<Rightarrow> TWords" where
  "Edits2_loop lm deeper w = concat (map (Edits2_at lm deeper w) [0..<length w + 1])"

definition Edits2 :: "TLangModel \<Rightarrow> wstring \<Rightarrow> bool \<Rightarrow> TWords" where
  "Edits2 lm w lastLevel =
     Edits2_loop lm (if lastLevel then (\<lambda>s. []) else Edits2_loop lm (\<lambda>s. [])) w"

definition Inserts :: "TLangModel \<Rightarrow> wstring \<Rightarrow> TWords" where
  "Inserts lm w =
     concat (map (\<lambda>i. concat (map (\<lambda>ch. Lookup lm (take i w @ [ch] @ drop i w)) (GetAlphabet lm)))
                 [0..<length w + 1])"

text \<open>
  From here on a result is an \<open>option\<close>: \<open>None\<close> when the call does not return normally,
  because \<open>WideToUTF8\<close> throws or a null filter pointer is dereferenced.
\<close>

definition Inserts2 :: "TRuntime \<Rightarrow> TSpellCorrector \<Rightarrow> wstring \<Rightarrow> TWords option" where
  "Inserts2 rt sc w =
     map_option concat (those (map (\<lambda>(i, ch).
         let s = take i w @ [ch] @ drop i w in
         do { k \<leftarrow> WideToUTF8 rt s;
              d1 \<leftarrow> Deletes1 sc;
              Some (if Contains rt d1 k then Inserts (LangModel sc) s else []) })
       (concat (map (\<lambda>i. map (\<lambda>ch. (i, ch)) (GetAlphabet (LangModel sc))) [0..<length w + 1]))))"

text \<open>The body of the inner loop of \<open>Edits\<close>, for one string \<open>w\<close> of the deletion groups.\<close>

definition Edits_at :: "TRuntime \<Rightarrow> TSpellCorrector \<Rightarrow> wstring \<Rightarrow> TWords option" where
  "Edits_at rt sc w =
     do { s \<leftarrow> WideToUTF8 rt w;
          d1 \<leftarrow> Deletes1 sc;
          let r1 = (if Contains rt d1 s then Inserts (LangModel sc) w else []);
          d2 \<leftarrow> Deletes2 sc;
          r2 \<leftarrow> (if Contains rt d2 s then Inserts2 rt sc w else Some []);
          Some (Lookup (LangModel sc) w @ r1 @ r2) }"

definition Edits :: "TRuntime \<Rightarrow> TSpellCorrector \<Rightarrow> TWord \<Rightarrow> TWords option" where
  "Edits rt sc word =
     (let cands = GetDeletes2 word @ [[word]]
      in map_option concat (those (map (Edits_at rt sc) (concat cands))))"

section \<open>Frequency pruner\<close>

text \<open>
  \<open>std::stable_sort\<close> with the comparator \<open>a.first > b.first\<close>: a stable sort by
  descending count.
\<close>

definition stable_sort_by_count :: "(nat \<times> TWord) list \<Rightarrow> (nat \<times> TWord) list" where
  "stable_sort_by_count xs = sort_key (\<lambda>a. - int (fst a)) xs"

text \<open>
  A \<open>std::unordered_set\<close> is represented by the sequence of insertions that built it; its
  elements are visited in the order \<open>unordered_iter\<close> gives, and its size is the number of
  elements visited. \<open>FilterCandidatesByFrequency\<close> returns the set it leaves in
  \<open>uniqueCandidates\<close>.
\<close>

definition FilterCandidatesByFrequency ::
    "TRuntime \<Rightarrow> TSpellCorrector \<Rightarrow> TWords \<Rightarrow> TWord \<Rightarrow> TWords" where
  "FilterCandidatesByFrequency rt sc uniqueCandidates origWord =
     (if length (unordered_iter rt uniqueCandidates) \<le> MaxCandiatesToCheck sc
      then uniqueCandidates
      else
        let candidateCounts =
              map (\<lambda>c. (GetWordCount (LangModel sc) (GetWordIdNoCreate (LangModel sc) c), c))
                  (unordered_iter rt uniqueCandidates);
            sorted = stable_sort_by_count candidateCounts
        in map snd (take (MaxCandiatesToCheck sc) sorted) @ [origWord])"

section \<open>The candidate query\<close>

text \<open>
  Lines 72 to 79 of \<open>GetCandidatesScoredRaw\<close>: the candidates and the flag
  \<open>firstLevel\<close>. \<open>Edits2(w)\<close> is the call with the default \<open>lastLevel\<close>.
\<close>

definition InitialCandidates :: "TRuntime \<Rightarrow> TSpellCorrector \<Rightarrow> TWord \<Rightarrow> (TWords \<times> bool) option" where
  "InitialCandidates rt sc w =
     (let candidates = Edits2 (LangModel sc) w True in
      if candidates = [] then map_option (\<lambda>c. (c, False)) (Edits rt sc w)
      else Some (candidates, True))"

text \<open>
  Lines 86 to 93: the word the candidates are compared with from then on, and the flag
  \<open>knownWord\<close>.
\<close>

definition IdentityWord :: "TLangModel \<Rightarrow> TWord \<Rightarrow> TWord \<times> bool" where
  "IdentityWord lm w =
     (case GetWord lm w of
        None \<Rightarrow> (w, False)
      | Some c \<Rightarrow> if c \<noteq> [] then (c, True) else (w, False))"

text \<open>Lines 104 to 113: the sentence that is scored for the candidate \<open>cand\<close>.\<close>

definition CandSentence :: "TWords \<Rightarrow> nat \<Rightarrow> TWord \<Rightarrow> TWords" where
  "CandSentence sentence position cand =
     concat (map (\<lambda>i. if i = position then [cand]
                       else if (i < position \<and> i + 2 \<ge> position) \<or>
                               (i > position \<and> i \<le> position + 2)
                            then [sentence ! i] else [])
                 [0..<length sentence])"

text \<open>Lines 115 to 128: the score of the candidate and its adjustment.\<close>

definition ScoreCandidate ::
    "TRuntime \<Rightarrow> TSpellCorrector \<Rightarrow> TWords \<Rightarrow> nat \<Rightarrow> TWord \<Rightarrow> bool \<Rightarrow> bool \<Rightarrow> TWord \<Rightarrow>
       TScoredWord" where
  "ScoreCandidate rt sc sentence position w knownWord firstLevel cand =
     (let s = LM_Score (LangModel sc) (CandSentence sentence position cand)
      in \<lparr>Word = cand,
          Score = (if cand \<noteq> w
                   then (if knownWord
                         then (if firstLevel then DoubleSub rt s (KnownWordsPenalty sc)
                               else DoubleMul rt s 50)
                         else DoubleSub rt s (UnknownWordsPenalty sc))
                   else s)\<rparr>)"

text \<open>The scored candidates in the order of the loop of line 103, before the final sort.\<close>

definition ScoredCandidates ::
    "TRuntime \<Rightarrow> TSpellCorrector \<Rightarrow> TWords \<Rightarrow> nat \<Rightarrow> TWords \<Rightarrow> bool \<Rightarrow> TScoredWords" where
  "ScoredCandidates rt sc sentence position candidates firstLevel =
     (let (w, knownWord) = IdentityWord (LangModel sc) (sentence ! position);
          uniqueCandidates = FilterCandidatesByFrequency rt sc (candidates @ [w]) w
      in map (ScoreCandidate rt sc sentence position w knownWord firstLevel)
             (unordered_iter rt uniqueCandidates))"

definition GetCandidatesScoredRaw ::
    "TRuntime \<Rightarrow> TSpellCorrector \<Rightarrow> TWords \<Rightarrow> nat \<Rightarrow> TScoredWords option" where
  "GetCandidatesScoredRaw rt sc sentence position =
     (if position \<ge> length sentence then Some []
      else
        case InitialCandidates rt sc (sentence ! position) of
          None \<Rightarrow> None
        | Some (candidates, firstLevel) \<Rightarrow>
            if candidates = [] then Some []
            else Some (std_sort rt
                         (ScoredCandidates rt sc sentence position candidates firstLevel)))"

text \<open>
  \<open>GetCandidatesRaw\<close> prints every scored candidate before it keeps its word, and
  converts the word with \<open>WideToUTF8\<close> for that: it does not return when one of the words
  does not convert.
\<close>

definition GetCandidatesRaw :: "TRuntime \<Rightarrow> TSpellCorrector \<Rightarrow> TWords \<Rightarrow> nat \<Rightarrow> TWords option" where
  "GetCandidatesRaw rt sc sentence position =
     do { scoredCandidates \<leftarrow> GetCandidatesScoredRaw rt sc sentence position;
          printed \<leftarrow> those (map (\<lambda>s. WideToUTF8 rt (Word s)) scoredCandidates);
          Some (map Word scoredCandidates) }"

section \<open>Cache construction\<close>

text \<open>
  The first loop of \<open>PrepareCache\<close> adds a word and then leaves when more than 3000 have
  been added, so it reads the first 3001 words. \<open>int(double(s) / n)\<close> is the quotient
  rounded towards zero; for an empty vocabulary it is the conversion of a NaN, which is
  undefined (\<open>None\<close>). The products are taken in 64 bits.
\<close>

definition CacheSizes :: "wstring list \<Rightarrow> (nat \<times> nat) option" where
  "CacheSizes wordToId =
     (let sample = take 3001 wordToId;
          n = length sample;
          s = sum_list (map length sample)
      in if n = 0 then None
         else
           let avgWordLen = max (s div n + 1) 1;
               avgWordLenMinusOne = max 1 (avgWordLen - 1);
               deletes1size = (length wordToId * avgWordLen) mod 2 ^ 64;
               deletes2size = (length wordToId * avgWordLen * avgWordLenMinusOne) mod 2 ^ 64;
               deletes1size = max 1000 deletes1size;
               deletes1size = max 1000 deletes1size
           in Some (deletes1size, deletes2size))"

definition falsePositiveProb :: rat where
  "falsePositiveProb = 1 / 1000"

text \<open>
  The body of the loop over one deletion group \<open>w1\<close>: its last string goes to
  \<open>Deletes1\<close>, the others to \<open>Deletes2\<close>. An exception of \<open>WideToUTF8\<close> on the last
  string is caught outside the inner loop and skips the whole group; one on another string is
  caught inside and skips that string.
\<close>

definition InsertGroup ::
    "TRuntime \<Rightarrow> TBloomFilter \<times> TBloomFilter \<Rightarrow> wstring list \<Rightarrow> TBloomFilter \<times> TBloomFilter" where
  "InsertGroup rt ds w1 =
     (case WideToUTF8 rt (last w1) of
        None \<Rightarrow> ds
      | Some k \<Rightarrow>
          (Insert rt (fst ds) k,
           foldl (\<lambda>d2 s. case WideToUTF8 rt s of None \<Rightarrow> d2 | Some k2 \<Rightarrow> Insert rt d2 k2)
                 (snd ds) (butlast w1)))"

definition InsertWord ::
    "TRuntime \<Rightarrow> TBloomFilter \<times> TBloomFilter \<Rightarrow> wstring \<Rightarrow> TBloomFilter \<times> TBloomFilter" where
  "InsertWord rt ds word = foldl (InsertGroup rt) ds (GetDeletes2 word)"

definition PrepareCache :: "TRuntime \<Rightarrow> TSpellCorrector \<Rightarrow> TSpellCorrector option" where
  "PrepareCache rt sc =
     (let wordToId = GetWordToId (LangModel sc) in
      case CacheSizes wordToId of
        None \<Rightarrow> None
      | Some (deletes1size, deletes2size) \<Rightarrow>
          let ds = foldl (InsertWord rt)
                     (BloomNew rt deletes1size falsePositiveProb,
                      BloomNew rt deletes2size falsePositiveProb)
                     wordToId
          in Some (sc\<lparr>Deletes1 := Some (fst ds), Deletes2 := Some (snd ds)\<rparr>))"

section \<open>Cache loading\<close>

definition SPELL_CHECKER_CACHE_MAGIC_BYTE :: nat where
  "SPELL_CHECKER_CACHE_MAGIC_BYTE = 3811558393781437494"

definition SPELL_CHECKER_CACHE_VERSION :: nat where
  "SPELL_CHECKER_CACHE_VERSION = 1"

text \<open>
  A cache file that could be opened, as the values the successive loads (\<open>NHandyPack::Load\<close>
  and \<open>TBloomFilter::Load\<close>, both outside the sources) leave in the variables of
  \<open>LoadCache\<close>: the magic number, the version, the checksum, the two filters and the closing
  magic number.
\<close>

record TCacheFile =
  FileMagic :: nat
  FileVersion :: nat
  FileCheckSum :: nat
  FileDeletes1 :: TBloomFilter
  FileDeletes2 :: TBloomFilter
  FileMagicEnd :: nat

text \<open>
  \<open>LoadCache\<close> returns its result and the engine it leaves; the file is \<open>None\<close> when it
  cannot be opened.
\<close>

definition LoadCache :: "TSpellCorrector \<Rightarrow> TCacheFile option \<Rightarrow> bool \<times> TSpellCorrector" where
  "LoadCache sc cacheFile =
     (case cacheFile of
        None \<Rightarrow> (False, sc)
      | Some f \<Rightarrow>
          if FileMagic f \<noteq> SPELL_CHECKER_CACHE_MAGIC_BYTE then (False, sc)
          else if FileVersion f \<noteq> SPELL_CHECKER_CACHE_VERSION then (False, sc)
          else if FileCheckSum f \<noteq> GetCheckSum (LangModel sc) then (False, sc)
          else if FileMagicEnd f \<noteq> SPELL_CHECKER_CACHE_MAGIC_BYTE then (False, sc)
          else (True, sc\<lparr>Deletes1 := Some (FileDeletes1 f), Deletes2 := Some (FileDeletes2 f)\<rparr>))"

section \<open>The engine of NOpenSpell\<close>

text \<open>
  \<open>NOpenSpell::TSpellCorrector::Edits\<close>. Its loop runs while \<open>i < w.size() - 1\<close>, in
  \<open>size_t\<close>: for the empty word the bound wraps around and the first \<open>w.substr(i+1)\<close>
  throws \<open>std::out_of_range\<close> (\<open>None\<close>); for a longer word the indices are those below
  \<open>length w - 1\<close>, and where \<open>w.size() - 2\<close> and \<open>w.size() - 3\<close> are reached the word
  has at least two and three characters. The transposition at the last but two position
  leaves the last character out. As in \<open>NJamSpell\<close>, the nested call takes the default
  \<open>lastLevel\<close>, taken to be \<open>true\<close>.
\<close>

definition NOpenSpell_Edits_at ::
    "TLangModel \<Rightarrow> (wstring \<Rightarrow> TWords option) \<Rightarrow> wstring \<Rightarrow> nat \<Rightarrow> TWords option" where
  "NOpenSpell_Edits_at lm deeper w i =
     (let visit = (\<lambda>s. do { r \<leftarrow> deeper s; Some (Lookup lm s @ r) }) in
      do { a \<leftarrow> visit (take i w @ drop (i + 1) w);
           b \<leftarrow> (if i < length w - 2
                 then visit (take i w @ [w ! (i + 1)] @ [w ! i] @
                             (if i < length w - 3 then drop (i + 2) w else []))
                 else Some []);
           c \<leftarrow> map_option concat
                  (those (map (\<lambda>ch. visit (take i w @ [ch] @ drop (i + 1) w)) (GetAlphabet lm)));
           d \<leftarrow> map_option concat
                  (those (map (\<lambda>ch. visit (take i w @ [ch] @ drop i w)) (GetAlphabet lm)));
           Some (a @ b @ c @ d) })"

definition NOpenSpell_Edits_loop ::
    "TLangModel \<Rightarrow> (wstring \<Rightarrow> TWords option) \<Rightarrow> wstring \<Rightarrow> TWords option" where
  "NOpenSpell_Edits_loop lm deeper w =
     (if w = [] then None
      else map_option concat
             (those (map (NOpenSpell_Edits_at lm deeper w) [0..<length w - 1])))"

definition NOpenSpell_Edits :: "TLangModel \<Rightarrow> wstring \<Rightarrow> bool \<Rightarrow> TWords option" where
  "NOpenSpell_Edits lm w lastLevel =
     NOpenSpell_Edits_loop lm
       (if lastLevel then (\<lambda>s. Some []) else NOpenSpell_Edits_loop lm (\<lambda>s. Some [])) w"

text \<open>
  \<open>NOpenSpell::TSpellCorrector::Correct\<close>: the sentence scored for a candidate is the
  whole sentence with the candidate at the position.
\<close>

definition NOpenSpell_Correct ::
    "TRuntime \<Rightarrow> TLangModel \<Rightarrow> TWords \<Rightarrow> nat \<Rightarrow> TWords option" where
  "NOpenSpell_Correct rt lm sentence position =
     (if position \<ge> length sentence then Some []
      else
        do { first \<leftarrow> NOpenSpell_Edits lm (sentence ! position) True;
             second \<leftarrow> (if first = [] then NOpenSpell_Edits lm (sentence ! position) False
                        else Some first);
             let firstLevel = (first \<noteq> []);
             let (w, candidates) =
                   (case GetWord lm (sentence ! position) of
                      None \<Rightarrow> (sentence ! position, second)
                    | Some c \<Rightarrow> if c \<noteq> [] then (c, second @ [c])
                                else (sentence ! position, second));
             if candidates = [] then Some []
             else
               Some (map Word (std_sort rt
                 (map (\<lambda>cand.
                         let s = LM_Score lm
                                   (map (\<lambda>i. if i = position then cand else sentence ! i)
                                        [0..<length sentence])
                         in \<lparr>Word = cand,
                             Score = (if cand \<noteq> w
                                      then (if firstLevel then DoubleMul rt s 1.045
                                            else DoubleMul rt s 50)
                                      else s)\<rparr>)
                      (unordered_iter rt candidates)))) })"

section \<open>What the C++ library guarantees\<close>

text \<open>
  \<open>std::sort\<close> with the comparator \<open>w1.Score > w2.Score\<close> leaves a permutation of its
  input in which no element has a greater score than one before it. It promises nothing on
  the order of elements of equal score.
\<close>

definition std_sort_contract :: "TRuntime \<Rightarrow> bool" where
  "std_sort_contract rt \<longleftrightarrow>
     (\<forall>xs. mset (std_sort rt xs) = mset xs \<and>
           sorted_wrt (\<lambda>a b. Score a \<ge> Score b) (std_sort rt xs))"

text \<open>
  Iterating over a \<open>std::unordered_set\<close> visits each of its elements once, in an order
  that is not specified.
\<close>

definition unordered_set_contract :: "TRuntime \<Rightarrow> bool" where
  "unordered_set_contract rt \<longleftrightarrow>
     (\<forall>xs. distinct (unordered_iter rt xs) \<and> set (unordered_iter rt xs) = set xs)"

section \<open>Notions of the specification\<close>

text \<open>The strings obtained from \<open>w\<close> by deleting one character, and by deleting two.\<close>

definition deletions1 :: "wstring \<Rightarrow> wstring list" where
  "deletions1 w = map (\<lambda>i. take i w @ drop (Suc i) w) [0..<length w]"

definition deletions2 :: "wstring \<Rightarrow> wstring list" where
  "deletions2 w = concat (map deletions1 (deletions1 w))"

text \<open>The UTF-8 keys of those strings of a list that convert, in the order of the list.\<close>

definition ConvertedKeys :: "TRuntime \<Rightarrow> wstring list \<Rightarrow> string list" where
  "ConvertedKeys rt ss =
     concat (map (\<lambda>s. case WideToUTF8 rt s of None \<Rightarrow> [] | Some k \<Rightarrow> [k]) ss)"

text \<open>
  The keys of the non-empty single-character deletions of the words of a vocabulary; and the
  keys of the non-empty single-character deletions of those non-empty single-character
  deletions that convert.
\<close>

definition InsertedKeys1 :: "TRuntime \<Rightarrow> wstring list \<Rightarrow> string list" where
  "InsertedKeys1 rt vocabulary =
     concat (map (\<lambda>w. ConvertedKeys rt (filter (\<lambda>d. d \<noteq> []) (deletions1 w))) vocabulary)"

definition InsertedKeys2 :: "TRuntime \<Rightarrow> wstring list \<Rightarrow> string list" where
  "InsertedKeys2 rt vocabulary =
     concat (map (\<lambda>w.
       concat (map (\<lambda>d. if WideToUTF8 rt d = None then []
                         else ConvertedKeys rt (filter (\<lambda>d2. d2 \<noteq> []) (deletions1 d)))
                   (filter (\<lambda>d. d \<noteq> []) (deletions1 w)))) vocabulary)"

text \<open>A filter reports a string as contained: its UTF-8 key passes \<open>Contains\<close>.\<close>

definition Reports :: "TRuntime \<Rightarrow> TBloomFilter option \<Rightarrow> wstring \<Rightarrow> bool" where
  "Reports rt bloom s =
     (case bloom of
        None \<Rightarrow> False
      | Some bf \<Rightarrow> (case WideToUTF8 rt s of None \<Rightarrow> False | Some k \<Rightarrow> Contains rt bf k))"

text \<open>The four checks of a cache file.\<close>

definition CacheChecksPass :: "TSpellCorrector \<Rightarrow> TCacheFile \<Rightarrow> bool" where
  "CacheChecksPass sc f \<longleftrightarrow>
     FileMagic f = SPELL_CHECKER_CACHE_MAGIC_BYTE \<and>
     FileVersion f = SPELL_CHECKER_CACHE_VERSION \<and>
     FileCheckSum f = GetCheckSum (LangModel sc) \<and>
     FileMagicEnd f = SPELL_CHECKER_CACHE_MAGIC_BYTE"

text \<open>
  The candidate generation as the specification words it: the symmetric-delete enumeration
  first, the one-level enumeration only when the first returns nothing.
\<close>

definition InitialCandidates_spec :: "TRuntime \<Rightarrow> TSpellCorrector \<Rightarrow> TWord \<Rightarrow> (TWords \<times> bool) option" where
  "InitialCandidates_spec rt sc w =
     (case Edits rt sc w of
        None \<Rightarrow> None
      | Some candidates \<Rightarrow>
          if candidates = [] then Some (Edits2 (LangModel sc) w True, False)
          else Some (candidates, True))"

text \<open>
  The strings at one edit from \<open>w\<close>: a deletion at a position, a transposition of two
  adjacent positions, a replacement at a position by a symbol of the alphabet, an insertion of
  a symbol of the alphabet before a position or at the end.
\<close>

definition edits1_strings :: "wchar list \<Rightarrow> wstring \<Rightarrow> wstring list" where
  "edits1_strings alphabet w =
     map (\<lambda>i. take i w @ drop (i + 1) w) [0..<length w] @
     map (\<lambda>i. take i w @ [w ! (i + 1), w ! i] @ drop (i + 2) w) [0..<length w - 1] @
     concat (map (\<lambda>i. map (\<lambda>ch. take i w @ [ch] @ drop (i + 1) w) alphabet) [0..<length w]) @
     concat (map (\<lambda>i. map (\<lambda>ch. take i w @ [ch] @ drop i w) alphabet) [0..<length w + 1])"

text \<open>A filter \<open>b\<close> has the shape of \<open>a\<close> and at least its bits.\<close>

definition BloomExtends :: "TBloomFilter \<Rightarrow> TBloomFilter \<Rightarrow> bool" where
  "BloomExtends a b \<longleftrightarrow>
     NumBits b = NumBits a \<and> NumHashes b = NumHashes a \<and> Bits a \<subseteq> Bits b"

text \<open>A stable sort of the scored candidates by descending score.\<close>

definition stable_sort_by_score :: "TScoredWords \<Rightarrow> TScoredWords" where
  "stable_sort_by_score xs = sort_key (\<lambda>x. - Score x) xs"

section \<open>A small fixture\<close>

text \<open>
  Words are written as lists of code points: 97, 98, 99 are the letters a, b, c and
  116, 104, 101 are t, h, e.

  A runtime: conversion of code points below 128 (and failure on the others), one hash
  function (the length of the key), filters of at least 1000 bits, sets iterated in the order
  of first insertion, a stable sort, and the exact difference and product (which are those
  of doubles on the small integers of the fixture).
\<close>

definition fx_utf8 :: "wstring \<Rightarrow> string option" where
  "fx_utf8 w = (if list_all (\<lambda>c. c < 128) w then Some (map char_of w) else None)"

definition fx_runtime :: TRuntime where
  "fx_runtime =
     \<lparr>WideToUTF8 = fx_utf8,
      BloomHash = (\<lambda>i key. length key + i),
      BloomNew = (\<lambda>n p. \<lparr>NumBits = max 1000 n, NumHashes = 1, Bits = {}\<rparr>),
      unordered_iter = remdups,
      std_sort = stable_sort_by_score,
      DoubleSub = (\<lambda>x y. x - y),
      DoubleMul = (\<lambda>x y. x * y)\<rparr>"

text \<open>The same runtime with a sort that puts candidates of equal score in reverse order.\<close>

definition fx_runtime_rev :: TRuntime where
  "fx_runtime_rev = fx_runtime\<lparr>std_sort := (\<lambda>xs. rev (sort_key Score xs))\<rparr>"

text \<open>A language model over a vocabulary and an alphabet; every sentence scores -1.\<close>

definition fx_model :: "wstring list \<Rightarrow> wchar list \<Rightarrow> TLangModel" where
  "fx_model vocabulary alphabet =
     \<lparr>GetWord = (\<lambda>s. if s \<in> set vocabulary then Some s else None),
      GetWordIdNoCreate = (\<lambda>w. length w),
      GetWordCount = (\<lambda>i. i),
      GetWordToId = vocabulary,
      GetAlphabet = alphabet,
      LM_Score = (\<lambda>s. - 1),
      GetCheckSum = 7\<rparr>"

text \<open>An engine without filters over such a model, with penalties 20 and 30 and cap 14.\<close>

definition fx_engine :: "wstring list \<Rightarrow> wchar list \<Rightarrow> TSpellCorrector" where
  "fx_engine vocabulary alphabet =
     \<lparr>LangModel = fx_model vocabulary alphabet,
      Deletes1 = None,
      Deletes2 = None,
      KnownWordsPenalty = 20,
      UnknownWordsPenalty = 30,
      MaxCandiatesToCheck = 14\<rparr>"

text \<open>A cache file for the fixture model, with the given closing magic number.\<close>

definition fx_filter :: "nat set \<Rightarrow> TBloomFilter" where
  "fx_filter bits = \<lparr>NumBits = 1000, NumHashes = 1, Bits = bits\<rparr>"

definition fx_cache :: "nat \<Rightarrow> TCacheFile" where
  "fx_cache closing =
     \<lparr>FileMagic = 3811558393781437494,
      FileVersion = 1,
      FileCheckSum = 7,
      FileDeletes1 = fx_filter {1, 2},
      FileDeletes2 = fx_filter {1},
      FileMagicEnd = closing\<rparr>"

text \<open>
  The engine over the vocabulary "aa", "aaa" and the alphabet "a", with the filters that
  \<open>PrepareCache\<close> builds for it.
\<close>

definition fx_built :: TSpellCorrector where
  "fx_built = fx_engine [[97, 97], [97, 97, 97]] [97]
                \<lparr>Deletes1 := Some (fx_filter {1, 2}), Deletes2 := Some (fx_filter {1})\<rparr>"

text \<open>
  The engine over the vocabulary "ab", "abcd" and the alphabet "c", "d", with the filters
  that \<open>PrepareCache\<close> builds for it. No word of the vocabulary is at one edit from "ab"
  over this alphabet, and the symmetric-delete enumeration finds "abcd".
\<close>

definition fx_fallback :: TSpellCorrector where
  "fx_fallback = fx_engine [[97, 98], [97, 98, 99, 100]] [99, 100]
                   \<lparr>Deletes1 := Some (fx_filter {1, 3}), Deletes2 := Some (fx_filter {2})\<rparr>"

section \<open>Auxiliary facts\<close>

subsection \<open>The fixture meets the guarantees of the library\<close>

lemma fx_std_sort_contract: "std_sort_contract fx_runtime"
proof -
  have "sorted_wrt (\<lambda>a b. Score a \<ge> Score b) (sort_key (\<lambda>x. - Score x) xs)"
    for xs :: TScoredWords
    using sorted_sort_key [of "\<lambda>x. - Score x" xs] by (simp add: sorted_map)
  then show ?thesis
    by (simp add: std_sort_contract_def fx_runtime_def stable_sort_by_score_def)
qed

lemma fx_rev_std_sort_contract: "std_sort_contract fx_runtime_rev"
proof -
  have "sorted_wrt (\<lambda>a b. Score a \<ge> Score b) (rev (sort_key Score xs))"
    for xs :: TScoredWords
    using sorted_sort_key [of Score xs] by (simp add: sorted_map sorted_wrt_rev)
  then show ?thesis
    by (simp add: std_sort_contract_def fx_runtime_rev_def fx_runtime_def)
qed

lemma fx_unordered_set_contract: "unordered_set_contract fx_runtime"
  by (simp add: unordered_set_contract_def fx_runtime_def)

lemma fx_rev_unordered_set_contract: "unordered_set_contract fx_runtime_rev"
  by (simp add: unordered_set_contract_def fx_runtime_rev_def fx_runtime_def)

subsection \<open>Runs of the fixture\<close>

lemma fx_query_unknown:
  "GetCandidatesScoredRaw fx_runtime (fx_engine [[97], [98]] [97, 98]) [[99]] 0 =
     Some [\<lparr>Word = [99], Score = - 1\<rparr>, \<lparr>Word = [97], Score = - 31\<rparr>,
           \<lparr>Word = [98], Score = - 31\<rparr>]"
  by code_simp

lemma fx_query_unknown_rev:
  "GetCandidatesScoredRaw fx_runtime_rev (fx_engine [[97], [98]] [97, 98]) [[99]] 0 =
     Some [\<lparr>Word = [99], Score = - 1\<rparr>, \<lparr>Word = [98], Score = - 31\<rparr>,
           \<lparr>Word = [97], Score = - 31\<rparr>]"
  by code_simp

lemma fx_query_known:
  "GetCandidatesScoredRaw fx_runtime (fx_engine [[97], [98]] [97, 98]) [[97]] 0 =
     Some [\<lparr>Word = [97], Score = - 1\<rparr>, \<lparr>Word = [98], Score = - 21\<rparr>]"
  by code_simp

lemma fx_scored_unknown:
  "ScoredCandidates fx_runtime_rev (fx_engine [[97], [98]] [97, 98]) [[99]] 0 [[97], [98]] True =
     [\<lparr>Word = [97], Score = - 31\<rparr>, \<lparr>Word = [98], Score = - 31\<rparr>, \<lparr>Word = [99], Score = - 1\<rparr>]"
  by code_simp

lemma fx_edits2_unknown: "Edits2 (fx_model [[97], [98]] [97, 98]) [99] True = [[97], [98]]"
  by code_simp

lemma fx_edits2_known: "Edits2 (fx_model [[97], [98]] [97, 98]) [97] True = [[97], [98]]"
  by code_simp

subsection \<open>The steps of the query\<close>

lemma set_std_sort: "std_sort_contract rt \<Longrightarrow> set (std_sort rt xs) = set xs"
  unfolding std_sort_contract_def by (metis set_mset_mset)

lemma InitialCandidates_firstLevel:
  "InitialCandidates rt sc w = Some (candidates, firstLevel) \<Longrightarrow>
     firstLevel = (Edits2 (LangModel sc) w True \<noteq> [])"
  by (auto simp: InitialCandidates_def Let_def split: if_splits)

lemma GetCandidatesScoredRaw_cases:
  assumes "GetCandidatesScoredRaw rt sc sentence position = Some out"
  shows "out = [] \<or>
         (position < length sentence \<and>
          (\<exists>candidates firstLevel.
             InitialCandidates rt sc (sentence ! position) = Some (candidates, firstLevel) \<and>
             candidates \<noteq> [] \<and>
             out = std_sort rt (ScoredCandidates rt sc sentence position candidates firstLevel)))"
  using assms
  by (auto simp: GetCandidatesScoredRaw_def split: if_splits option.splits prod.splits)

lemma orig_in_FilterCandidatesByFrequency:
  "origWord \<in> set uniqueCandidates \<or>
   MaxCandiatesToCheck sc < length (unordered_iter rt uniqueCandidates) \<Longrightarrow>
   origWord \<in> set (FilterCandidatesByFrequency rt sc uniqueCandidates origWord)"
  by (auto simp: FilterCandidatesByFrequency_def Let_def)

lemma Word_ScoreCandidate [simp]:
  "Word (ScoreCandidate rt sc sentence position w knownWord firstLevel cand) = cand"
  by (simp add: ScoreCandidate_def Let_def)

lemma ScoredCandidates_eq:
  "ScoredCandidates rt sc sentence position candidates firstLevel =
     map (ScoreCandidate rt sc sentence position
            (fst (IdentityWord (LangModel sc) (sentence ! position)))
            (snd (IdentityWord (LangModel sc) (sentence ! position))) firstLevel)
         (unordered_iter rt
            (FilterCandidatesByFrequency rt sc
               (candidates @ [fst (IdentityWord (LangModel sc) (sentence ! position))])
               (fst (IdentityWord (LangModel sc) (sentence ! position)))))"
  by (simp add: ScoredCandidates_def Let_def case_prod_beta)

lemma Word_ScoredCandidates:
  "map Word (ScoredCandidates rt sc sentence position candidates firstLevel) =
     unordered_iter rt
       (FilterCandidatesByFrequency rt sc
          (candidates @ [fst (IdentityWord (LangModel sc) (sentence ! position))])
          (fst (IdentityWord (LangModel sc) (sentence ! position))))"
  by (simp add: ScoredCandidates_eq comp_def)

lemma unordered_iter_length:
  "unordered_set_contract rt \<Longrightarrow> length (unordered_iter rt xs) = card (set xs)"
  unfolding unordered_set_contract_def by (metis distinct_card)

section \<open>Out-of-range queries\<close>

text \<open>
  C9: for every sentence and every position greater than or equal to the length of the
  sentence, the candidate query returns the empty ranked list; it returns normally, whatever
  the state of the engine. So does \<open>Correct\<close> of \<open>NOpenSpell\<close>.
\<close>

theorem query_out_of_range:
  assumes "length sentence \<le> position"
  shows "GetCandidatesScoredRaw rt sc sentence position = Some [] \<and>
         GetCandidatesRaw rt sc sentence position = Some [] \<and>
         NOpenSpell_Correct rt lm sentence position = Some []"
  using assms
  by (simp add: GetCandidatesRaw_def GetCandidatesScoredRaw_def NOpenSpell_Correct_def)

theorem query_out_of_range_witness:
  "length [[116, 104, 101 :: nat]] \<le> (5 :: nat) \<and>
   GetCandidatesScoredRaw fx_runtime (fx_engine [[116, 104, 101]] [101]) [[116, 104, 101]] 5
     = Some [] \<and>
   GetCandidatesRaw fx_runtime (fx_engine [[116, 104, 101]] [101]) [[116, 104, 101]] 5
     = Some [] \<and>
   NOpenSpell_Correct fx_runtime (fx_model [[116, 104, 101]] [101]) [[116, 104, 101]] 5
     = Some []"
  using query_out_of_range
          [of "[[116, 104, 101]]" 5 fx_runtime "fx_engine [[116, 104, 101]] [101]"
              "fx_model [[116, 104, 101]] [101]"]
  by simp

section \<open>Cache loading is atomic\<close>

text \<open>
  C4: \<open>LoadCache\<close> returns true exactly when the file opens and the leading magic number,
  the version, the checksum of the model and the closing magic number all pass. When it
  returns false the engine is unchanged, its two filters included; when it returns true both
  filters are replaced by those of the file and nothing else changes.
\<close>

theorem LoadCache_atomic:
  assumes "LoadCache sc cacheFile = (ok, sc')"
  shows "(ok \<longleftrightarrow> (case cacheFile of None \<Rightarrow> False | Some f \<Rightarrow> CacheChecksPass sc f)) \<and>
         (\<not> ok \<longrightarrow> sc' = sc) \<and>
         (ok \<longrightarrow> sc' = sc\<lparr>Deletes1 := map_option FileDeletes1 cacheFile,
                          Deletes2 := map_option FileDeletes2 cacheFile\<rparr>)"
  using assms
  by (auto simp: LoadCache_def CacheChecksPass_def split: option.splits if_splits)

theorem LoadCache_atomic_witness:
  "LoadCache (fx_engine [] [97]\<lparr>Deletes1 := Some (fx_filter {5})\<rparr>) (Some (fx_cache 0))
     = (False, fx_engine [] [97]\<lparr>Deletes1 := Some (fx_filter {5})\<rparr>) \<and>
   LoadCache (fx_engine [] [97]\<lparr>Deletes1 := Some (fx_filter {5})\<rparr>)
             (Some (fx_cache 3811558393781437494))
     = (True, fx_engine [] [97]\<lparr>Deletes1 := Some (fx_filter {1, 2}),
                                  Deletes2 := Some (fx_filter {1})\<rparr>)"
proof -
  let ?e = "fx_engine [] [97]\<lparr>Deletes1 := Some (fx_filter {5})\<rparr>"
  have bad: "\<not> CacheChecksPass ?e (fx_cache 0)"
    by (simp add: CacheChecksPass_def fx_cache_def SPELL_CHECKER_CACHE_MAGIC_BYTE_def)
  have good: "CacheChecksPass ?e (fx_cache 3811558393781437494)"
    by (simp add: CacheChecksPass_def fx_cache_def SPELL_CHECKER_CACHE_MAGIC_BYTE_def
          SPELL_CHECKER_CACHE_VERSION_def fx_engine_def fx_model_def)
  obtain ok1 sc1 where h1: "LoadCache ?e (Some (fx_cache 0)) = (ok1, sc1)"
    by (cases "LoadCache ?e (Some (fx_cache 0))")
  obtain ok2 sc2 where h2: "LoadCache ?e (Some (fx_cache 3811558393781437494)) = (ok2, sc2)"
    by (cases "LoadCache ?e (Some (fx_cache 3811558393781437494))")
  from LoadCache_atomic [OF h1] bad have r1: "\<not> ok1" "sc1 = ?e"
    by simp_all
  from LoadCache_atomic [OF h2] good have r2: "ok2"
      "sc2 = ?e\<lparr>Deletes1 := Some (FileDeletes1 (fx_cache 3811558393781437494)),
                Deletes2 := Some (FileDeletes2 (fx_cache 3811558393781437494))\<rparr>"
    by simp_all
  from h1 r1 h2 r2 show ?thesis
    by (simp add: fx_cache_def)
qed

section \<open>Sizes of the filters\<close>

text \<open>
  C7: the expected capacity of \<open>Deletes2\<close> is not floored at 1000. For the vocabulary of
  the single word "a" the capacities are 1000 for \<open>Deletes1\<close> and 2 for \<open>Deletes2\<close>:
  the line that floors \<open>deletes1size\<close> stands twice in \<open>PrepareCache\<close>, and none floors
  \<open>deletes2size\<close>. Besides, the average is taken over 3001 words, not 3000: two
  vocabularies of 3001 words that differ in the last word only get different capacities.
\<close>

theorem CacheSizes_deletes2_not_floored:
  "CacheSizes [[97]] = Some (1000, 2) \<and>
   CacheSizes (replicate 3000 [97] @ [[97]]) = Some (6002, 6002) \<and>
   CacheSizes (replicate 3000 [97] @ [replicate 6002 97]) = Some (9003, 18006)"
  by (simp add: CacheSizes_def Let_def sum_list_replicate)

section \<open>The frequency pruner\<close>

lemma sorted_wrt_take_drop:
  assumes "sorted_wrt P xs" and "a \<in> set (take k xs)" and "b \<in> set (drop k xs)"
  shows "P a b"
proof -
  have "sorted_wrt P (take k xs @ drop k xs)"
    using assms(1) by simp
  from this [unfolded sorted_wrt_append] assms(2,3) show ?thesis
    by blast
qed

text \<open>
  C3: a set of at most \<open>MaxCandiatesToCheck\<close> tokens is returned unchanged. A larger set
  is replaced by the first \<open>MaxCandiatesToCheck\<close> tokens of its ranking followed by the
  original query token, where the ranking is the stable sort of the set by descending
  \<open>GetWordCount\<close>: it is in descending order of count, tokens of equal count keep the order
  in which the set is iterated, and so the tokens kept are distinct tokens of the set whose
  counts are at least those of every token left out. The query token is in the pruned set
  whenever the set was larger than the cap or held the token already; the set a query prunes
  is built with the token added last, so there the token is always in the pruned set.
\<close>

theorem FilterCandidatesByFrequency_prunes:
  assumes "unordered_set_contract rt"
  shows "(card (set uniqueCandidates) \<le> MaxCandiatesToCheck sc \<longrightarrow>
            FilterCandidatesByFrequency rt sc uniqueCandidates origWord = uniqueCandidates) \<and>
         (card (set uniqueCandidates) > MaxCandiatesToCheck sc \<longrightarrow>
            (let cnt = (\<lambda>c. GetWordCount (LangModel sc) (GetWordIdNoCreate (LangModel sc) c));
                 ranked = map snd (stable_sort_by_count
                             (map (\<lambda>c. (cnt c, c)) (unordered_iter rt uniqueCandidates)));
                 kept = take (MaxCandiatesToCheck sc) ranked
             in FilterCandidatesByFrequency rt sc uniqueCandidates origWord = kept @ [origWord] \<and>
                distinct kept \<and> length kept = MaxCandiatesToCheck sc \<and>
                set kept \<subseteq> set uniqueCandidates \<and>
                (\<forall>a \<in> set kept. \<forall>b \<in> set uniqueCandidates - set kept. cnt b \<le> cnt a) \<and>
                sorted_wrt (\<lambda>a b. cnt a \<ge> cnt b) ranked \<and>
                (\<forall>n. filter (\<lambda>c. cnt c = n) ranked =
                      filter (\<lambda>c. cnt c = n) (unordered_iter rt uniqueCandidates)))) \<and>
         (origWord \<in> set uniqueCandidates \<or>
          card (set uniqueCandidates) > MaxCandiatesToCheck sc \<longrightarrow>
            origWord \<in> set (FilterCandidatesByFrequency rt sc uniqueCandidates origWord)) \<and>
         origWord \<in> set (FilterCandidatesByFrequency rt sc (candidates @ [origWord]) origWord)"
proof -
  let ?K = "MaxCandiatesToCheck sc"
  let ?cnt = "\<lambda>c. GetWordCount (LangModel sc) (GetWordIdNoCreate (LangModel sc) c)"
  let ?it = "unordered_iter rt uniqueCandidates"
  let ?cc = "map (\<lambda>c. (?cnt c, c)) ?it"
  let ?L = "stable_sort_by_count ?cc"
  let ?ranked = "map snd ?L"
  let ?kept = "take ?K ?ranked"
  let ?key = "\<lambda>a :: nat \<times> TWord. - int (fst a)"
  have len: "length ?it = card (set uniqueCandidates)"
    using assms by (rule unordered_iter_length)
  have it: "distinct ?it" "set ?it = set uniqueCandidates"
    using assms by (simp_all add: unordered_set_contract_def)
  have setL: "set ?L = (\<lambda>c. (?cnt c, c)) ` set uniqueCandidates"
    using it(2) by (simp add: stable_sort_by_count_def)
  have fstL: "fst a = ?cnt (snd a)" if "a \<in> set ?L" for a
    using that setL by auto
  have "mset ?ranked = mset ?it"
    by (simp add: stable_sort_by_count_def multiset.map_comp comp_def)
  with it(1) have distL: "distinct ?ranked"
    by (metis mset_eq_imp_distinct_iff)
  have set_ranked: "set ?ranked = set uniqueCandidates"
    using setL by (simp add: image_image)
  have sortedL: "sorted (map ?key ?L)"
    by (simp add: stable_sort_by_count_def)
  have lenL: "length ?ranked = card (set uniqueCandidates)"
    using len by (simp add: stable_sort_by_count_def)
  have small: "card (set uniqueCandidates) \<le> ?K \<Longrightarrow>
      FilterCandidatesByFrequency rt sc uniqueCandidates origWord = uniqueCandidates"
    by (simp add: FilterCandidatesByFrequency_def len)
  have large: "FilterCandidatesByFrequency rt sc uniqueCandidates origWord = ?kept @ [origWord]"
    if "card (set uniqueCandidates) > ?K"
    using that by (simp add: FilterCandidatesByFrequency_def len Let_def take_map)
  have kept_distinct: "distinct ?kept"
    using distL by (rule distinct_take)
  have kept_length: "length ?kept = ?K" if "card (set uniqueCandidates) > ?K"
    using that lenL by simp
  have kept_sub: "set ?kept \<subseteq> set uniqueCandidates"
    using set_take_subset [of ?K ?ranked] set_ranked by simp
  have ranked_sorted: "sorted_wrt (\<lambda>a b. ?cnt a \<ge> ?cnt b) ?ranked"
  proof -
    from sortedL have "sorted_wrt (\<lambda>a b. ?key a \<le> ?key b) ?L"
      by (simp add: sorted_map)
    then have "sorted_wrt (\<lambda>a b. ?cnt (snd a) \<ge> ?cnt (snd b)) ?L"
      by (rule sorted_wrt_mono_rel [rotated]) (simp add: fstL)
    then show ?thesis
      by (simp add: sorted_wrt_map)
  qed
  have kept_top: "?cnt b \<le> ?cnt a"
    if a: "a \<in> set ?kept" and b: "b \<in> set uniqueCandidates - set ?kept" for a b
  proof -
    from b set_ranked have "b \<in> set (?kept @ drop ?K ?ranked)" by simp
    then have "b \<in> set ?kept \<union> set (drop ?K ?ranked)"
      by (simp only: set_append)
    with b have "b \<in> set (drop ?K ?ranked)" by blast
    from sorted_wrt_take_drop [OF ranked_sorted a this] show ?thesis .
  qed
  have stable: "filter (\<lambda>c. ?cnt c = n) ?ranked = filter (\<lambda>c. ?cnt c = n) ?it" for n
  proof -
    have "filter (\<lambda>c. ?cnt c = n) ?ranked = map snd (filter (\<lambda>a. ?cnt (snd a) = n) ?L)"
      by (simp add: filter_map comp_def)
    also have "filter (\<lambda>a. ?cnt (snd a) = n) ?L = filter (\<lambda>a. ?key a = - int n) ?L"
      by (rule filter_cong) (auto simp: fstL)
    also have "\<dots> = filter (\<lambda>a. ?key a = - int n) ?cc"
      unfolding stable_sort_by_count_def by (rule sort_key_stable)
    also have "map snd \<dots> = filter (\<lambda>c. ?cnt c = n) ?it"
      by (simp add: filter_map comp_def)
    finally show ?thesis .
  qed
  have present: "origWord \<in> set (FilterCandidatesByFrequency rt sc us origWord)"
    if "origWord \<in> set us \<or> card (set us) > ?K" for us
    using that unordered_iter_length [OF assms, of us]
    by (auto simp: FilterCandidatesByFrequency_def Let_def)
  have "origWord \<in> set (FilterCandidatesByFrequency rt sc (candidates @ [origWord]) origWord)"
    by (rule present) simp
  then show ?thesis
    unfolding Let_def
    using small large kept_distinct kept_length kept_sub kept_top ranked_sorted stable
      present [of uniqueCandidates]
    by (intro conjI impI ballI allI) blast+
qed

theorem FilterCandidatesByFrequency_prunes_witness:
  "FilterCandidatesByFrequency fx_runtime (fx_engine [] []\<lparr>MaxCandiatesToCheck := 2\<rparr>)
      [[1], [2], [3, 3]] [9] = [[3, 3], [1], [9]] \<and>
   FilterCandidatesByFrequency fx_runtime (fx_engine [] []\<lparr>MaxCandiatesToCheck := 2\<rparr>)
      ([[1]] @ [[9]]) [9] = [[1], [9]] \<and>
   [9] \<in> set (FilterCandidatesByFrequency fx_runtime
                 (fx_engine [] []\<lparr>MaxCandiatesToCheck := 2\<rparr>) ([[1], [2], [3, 3]] @ [[9]]) [9])"
  using FilterCandidatesByFrequency_prunes [OF fx_unordered_set_contract,
          of "[[1], [2], [3, 3]]" "fx_engine [] []\<lparr>MaxCandiatesToCheck := 2\<rparr>" "[9]"
             "[[1], [2], [3, 3]]"]
        FilterCandidatesByFrequency_prunes [OF fx_unordered_set_contract,
          of "[[1], [9]]" "fx_engine [] []\<lparr>MaxCandiatesToCheck := 2\<rparr>" "[9]" "[[1]]"]
  by (simp add: fx_engine_def fx_model_def fx_runtime_def stable_sort_by_count_def)

section \<open>The scored sentence\<close>

lemma concat_map_nil: "(\<And>i. i \<in> set xs \<Longrightarrow> f i = []) \<Longrightarrow> concat (map f xs) = []"
  by (induction xs) auto

lemma concat_map_single:
  "(\<And>i. i \<in> set xs \<Longrightarrow> f i = [g i]) \<Longrightarrow> concat (map f xs) = map g xs"
  by (induction xs) auto

lemma map_nth_upt: "b \<le> length s \<Longrightarrow> map ((!) s) [a..<b] = drop a (take b s)"
  by (rule nth_equalityI) auto

lemma upt_split: "a \<le> b \<Longrightarrow> b \<le> c \<Longrightarrow> [a..<c] = [a..<b] @ [b..<c]"
  by (metis le_Suc_ex upt_add_eq_append)

lemma CandSentence_eq:
  assumes "position < length sentence"
  shows "CandSentence sentence position c =
           drop (position - 2) (take position sentence) @ [c] @
           take 2 (drop (position + 1) sentence)"
proof -
  let ?n = "length sentence" and ?p = position
  let ?f = "\<lambda>i. if i = ?p then [c]
                 else if (i < ?p \<and> i + 2 \<ge> ?p) \<or> (i > ?p \<and> i \<le> ?p + 2)
                      then [sentence ! i] else []"
  let ?m = "min ?n (?p + 3)"
  have before_far: "concat (map ?f [0..<?p - 2]) = []"
    by (rule concat_map_nil) auto
  have before_near: "concat (map ?f [?p - 2..<?p]) = map ((!) sentence) [?p - 2..<?p]"
    by (rule concat_map_single) auto
  have after_near: "concat (map ?f [Suc ?p..<?m]) = map ((!) sentence) [Suc ?p..<?m]"
    by (rule concat_map_single) auto
  have after_far: "concat (map ?f [?m..<?n]) = []"
    by (rule concat_map_nil) auto
  have split: "[0..<?n] = [0..<?p - 2] @ [?p - 2..<?p] @ [?p] @ [Suc ?p..<?m] @ [?m..<?n]"
  proof -
    have "[0..<?n] = [0..<?p] @ [?p..<?n]"
      using assms by (intro upt_split) auto
    moreover have "[0..<?p] = [0..<?p - 2] @ [?p - 2..<?p]"
      by (intro upt_split) auto
    moreover have "[?p..<?n] = ?p # [Suc ?p..<?n]"
      using assms by (simp add: upt_conv_Cons)
    moreover have "[Suc ?p..<?n] = [Suc ?p..<?m] @ [?m..<?n]"
      using assms by (intro upt_split) auto
    ultimately show ?thesis by simp
  qed
  have "CandSentence sentence position c =
          map ((!) sentence) [?p - 2..<?p] @ [c] @ map ((!) sentence) [Suc ?p..<?m]"
    unfolding CandSentence_def
    by (subst split) (simp only: map_append concat_append before_far before_near
          after_near after_far, simp)
  moreover have "map ((!) sentence) [?p - 2..<?p] = drop (?p - 2) (take ?p sentence)"
    using assms by (intro map_nth_upt) auto
  moreover have "map ((!) sentence) [Suc ?p..<?m] = take 2 (drop (?p + 1) sentence)"
  proof -
    have "map ((!) sentence) [Suc ?p..<?m] = drop (Suc ?p) (take ?m sentence)"
      by (intro map_nth_upt) auto
    also have "take ?m sentence = take (?p + 3) sentence"
      by (simp add: min_def)
    also have "drop (Suc ?p) (take (?p + 3) sentence) = take 2 (drop (?p + 1) sentence)"
      by (simp add: drop_take)
    finally show ?thesis .
  qed
  ultimately show ?thesis by simp
qed

text \<open>
  C6: for an in-range position \<open>p\<close> the sentence built for a candidate \<open>c\<close> consists of
  the tokens at positions \<open>p - 2\<close> and \<open>p - 1\<close> of the original sentence (those that
  exist), then \<open>c\<close>, then the tokens at positions \<open>p + 1\<close> and \<open>p + 2\<close> (those that
  exist); the score computed for the candidate is the language model's score of exactly that
  sentence, before the adjustment.
\<close>

theorem CandSentence_window:
  assumes "position < length sentence"
  shows "CandSentence sentence position c =
           drop (position - 2) (take position sentence) @ [c] @
           take 2 (drop (position + 1) sentence) \<and>
         Score (ScoreCandidate rt sc sentence position w knownWord firstLevel c) =
           (let s = LM_Score (LangModel sc)
                      (drop (position - 2) (take position sentence) @ [c] @
                       take 2 (drop (position + 1) sentence))
            in if c = w then s
               else if knownWord
                    then (if firstLevel then DoubleSub rt s (KnownWordsPenalty sc)
                          else DoubleMul rt s 50)
                    else DoubleSub rt s (UnknownWordsPenalty sc))"
  using CandSentence_eq [OF assms] by (simp add: ScoreCandidate_def Let_def)

theorem CandSentence_window_witness:
  "(3 :: nat) < length [[1], [2], [3], [4], [5], [6 :: nat]] \<and>
   CandSentence [[1], [2], [3], [4], [5], [6]] 3 [9] = [[2], [3], [9], [5], [6]] \<and>
   (0 :: nat) < length [[1], [2 :: nat]] \<and>
   CandSentence [[1], [2]] 0 [9] = [[9], [2]]"
  using CandSentence_window [of 3 "[[1], [2], [3], [4], [5], [6]]" "[9]"]
        CandSentence_window [of 0 "[[1], [2]]" "[9]"]
  by simp

section \<open>The penalty rule\<close>

lemma fx_fallback_sizes:
  "CacheSizes (GetWordToId (LangModel (fx_engine [[97, 98], [97, 98, 99, 100]] [99, 100]))) =
     Some (1000, 24)"
proof -
  have v: "GetWordToId (LangModel (fx_engine [[97, 98], [97, 98, 99, 100]] [99, 100])) =
             [[97, 98], [97, 98, 99, 100]]"
    by (simp add: fx_engine_def fx_model_def)
  have n: "length (take 3001 [[97, 98], [97, 98, 99, 100 :: nat]]) = 2"
    by simp
  have s: "sum_list (map length (take 3001 [[97, 98], [97, 98, 99, 100 :: nat]])) = 6"
    by simp
  have len: "length [[97, 98], [97, 98, 99, 100 :: nat]] = 2"
    by simp
  show ?thesis
    unfolding CacheSizes_def v Let_def n s len by simp
qed

lemma fx_fallback_fold:
  "foldl (InsertWord fx_runtime)
     (BloomNew fx_runtime 1000 falsePositiveProb, BloomNew fx_runtime 24 falsePositiveProb)
     (GetWordToId (LangModel (fx_engine [[97, 98], [97, 98, 99, 100]] [99, 100]))) =
   (fx_filter {1, 3}, fx_filter {2})"
  by code_simp

lemma fx_fallback_PrepareCache:
  "PrepareCache fx_runtime (fx_engine [[97, 98], [97, 98, 99, 100]] [99, 100]) = Some fx_fallback"
  unfolding PrepareCache_def Let_def
  by (simp only: fx_fallback_sizes fx_fallback_fold option.case prod.case fst_conv snd_conv
        fx_fallback_def)

lemma fx_fallback_Edits2: "Edits2 (LangModel fx_fallback) [97, 98] True = []"
  by code_simp

lemma fx_fallback_query:
  "GetCandidatesScoredRaw fx_runtime fx_fallback [[97, 98]] 0 =
     Some [\<lparr>Word = [97, 98], Score = - 1\<rparr>, \<lparr>Word = [97, 98, 99, 100], Score = - 50\<rparr>]"
  by code_simp

text \<open>
  C5: every scored candidate of a query carries the language model's score of its sentence,
  unchanged when the candidate is the identity word (the token the vocabulary gives for the
  original word when it has one, the original token otherwise); otherwise, when the original
  word is in the vocabulary, decreased by \<open>KnownWordsPenalty\<close> if the candidates came from
  the first level and multiplied by 50 if they came from the fallback; otherwise decreased by
  \<open>UnknownWordsPenalty\<close>. The difference and the product are those of doubles.
\<close>

theorem scored_candidate_penalty:
  assumes "std_sort_contract rt"
      and "GetCandidatesScoredRaw rt sc sentence position = Some out"
      and "sw \<in> set out"
  shows "Score sw =
           (let orig = sentence ! position;
                s = LM_Score (LangModel sc) (CandSentence sentence position (Word sw));
                knownWord = (case GetWord (LangModel sc) orig of
                               None \<Rightarrow> False
                             | Some c \<Rightarrow> c \<noteq> []);
                w = (case GetWord (LangModel sc) orig of
                       None \<Rightarrow> orig
                     | Some c \<Rightarrow> if c \<noteq> [] then c else orig);
                firstLevel = (Edits2 (LangModel sc) orig True \<noteq> [])
            in if Word sw = w then s
               else if knownWord
                    then (if firstLevel then DoubleSub rt s (KnownWordsPenalty sc)
                          else DoubleMul rt s 50)
                    else DoubleSub rt s (UnknownWordsPenalty sc))"
proof -
  from GetCandidatesScoredRaw_cases [OF assms(2)] assms(3)
  obtain candidates firstLevel where
    init: "InitialCandidates rt sc (sentence ! position) = Some (candidates, firstLevel)" and
    out: "out = std_sort rt (ScoredCandidates rt sc sentence position candidates firstLevel)"
    by auto
  from out assms(1,3)
  have "sw \<in> set (ScoredCandidates rt sc sentence position candidates firstLevel)"
    by (simp add: set_std_sort)
  then obtain cand where
    sw: "sw = ScoreCandidate rt sc sentence position
                (fst (IdentityWord (LangModel sc) (sentence ! position)))
                (snd (IdentityWord (LangModel sc) (sentence ! position))) firstLevel cand"
    by (auto simp: ScoredCandidates_eq)
  show ?thesis
    unfolding sw InitialCandidates_firstLevel [OF init]
    by (simp add: ScoreCandidate_def IdentityWord_def Let_def split: option.splits)
qed

theorem scored_candidate_penalty_witness:
  "GetCandidatesScoredRaw fx_runtime (fx_engine [[97], [98]] [97, 98]) [[99]] 0 =
     Some [\<lparr>Word = [99], Score = - 1\<rparr>, \<lparr>Word = [97], Score = - 31\<rparr>,
           \<lparr>Word = [98], Score = - 31\<rparr>] \<and>
   GetCandidatesScoredRaw fx_runtime (fx_engine [[97], [98]] [97, 98]) [[97]] 0 =
     Some [\<lparr>Word = [97], Score = - 1\<rparr>, \<lparr>Word = [98], Score = - 21\<rparr>] \<and>
   GetCandidatesScoredRaw fx_runtime fx_fallback [[97, 98]] 0 =
     Some [\<lparr>Word = [97, 98], Score = - 1\<rparr>, \<lparr>Word = [97, 98, 99, 100], Score = - 50\<rparr>] \<and>
   Score \<lparr>Word = [97], Score = - 31\<rparr> =
     DoubleSub fx_runtime
       (LM_Score (fx_model [[97], [98]] [97, 98]) (CandSentence [[99]] 0 [97]))
       (UnknownWordsPenalty (fx_engine [[97], [98]] [97, 98])) \<and>
   Score \<lparr>Word = [98], Score = - 21\<rparr> =
     DoubleSub fx_runtime
       (LM_Score (fx_model [[97], [98]] [97, 98]) (CandSentence [[97]] 0 [98]))
       (KnownWordsPenalty (fx_engine [[97], [98]] [97, 98])) \<and>
   Score \<lparr>Word = [97, 98, 99, 100], Score = - 50\<rparr> =
     DoubleMul fx_runtime
       (LM_Score (LangModel fx_fallback) (CandSentence [[97, 98]] 0 [97, 98, 99, 100])) 50 \<and>
   Score \<lparr>Word = [97, 98], Score = - 1\<rparr> =
     LM_Score (LangModel fx_fallback) (CandSentence [[97, 98]] 0 [97, 98])"
  using scored_candidate_penalty [OF fx_std_sort_contract fx_query_unknown,
          of "\<lparr>Word = [97], Score = - 31\<rparr>"]
        scored_candidate_penalty [OF fx_std_sort_contract fx_query_known,
          of "\<lparr>Word = [98], Score = - 21\<rparr>"]
        scored_candidate_penalty [OF fx_std_sort_contract fx_fallback_query,
          of "\<lparr>Word = [97, 98, 99, 100], Score = - 50\<rparr>"]
        scored_candidate_penalty [OF fx_std_sort_contract fx_fallback_query,
          of "\<lparr>Word = [97, 98], Score = - 1\<rparr>"]
        fx_query_unknown fx_query_known fx_fallback_query
  by (simp add: fx_edits2_unknown fx_edits2_known fx_fallback_Edits2 fx_fallback_def
        fx_engine_def fx_model_def fx_runtime_def)

section \<open>The query word is among the candidates\<close>

text \<open>
  C10: whenever the query returns a non-empty list, the list contains the token of the query
  word itself: the token the vocabulary gives for it when the word is known, the original
  token otherwise.
\<close>

theorem identity_word_in_result:
  assumes "std_sort_contract rt" and "unordered_set_contract rt"
      and "GetCandidatesScoredRaw rt sc sentence position = Some out"
      and "out \<noteq> []"
  shows "(case GetWord (LangModel sc) (sentence ! position) of
            None \<Rightarrow> sentence ! position
          | Some c \<Rightarrow> if c \<noteq> [] then c else sentence ! position) \<in> Word ` set out"
proof -
  let ?w = "fst (IdentityWord (LangModel sc) (sentence ! position))"
  from GetCandidatesScoredRaw_cases [OF assms(3)] assms(4)
  obtain candidates firstLevel where
    out: "out = std_sort rt (ScoredCandidates rt sc sentence position candidates firstLevel)"
    by auto
  have "Word ` set out = set (map Word (ScoredCandidates rt sc sentence position candidates firstLevel))"
    using assms(1) by (simp add: out set_std_sort)
  also have "\<dots> = set (FilterCandidatesByFrequency rt sc (candidates @ [?w]) ?w)"
    using assms(2) by (simp add: Word_ScoredCandidates unordered_set_contract_def)
  finally have "Word ` set out = set (FilterCandidatesByFrequency rt sc (candidates @ [?w]) ?w)" .
  moreover have "?w \<in> set (FilterCandidatesByFrequency rt sc (candidates @ [?w]) ?w)"
    by (rule orig_in_FilterCandidatesByFrequency) simp
  moreover have "?w = (case GetWord (LangModel sc) (sentence ! position) of
            None \<Rightarrow> sentence ! position
          | Some c \<Rightarrow> if c \<noteq> [] then c else sentence ! position)"
    by (simp add: IdentityWord_def split: option.splits)
  ultimately show ?thesis by simp
qed

theorem identity_word_in_result_witness:
  "GetCandidatesScoredRaw fx_runtime (fx_engine [[97], [98]] [97, 98]) [[99]] 0 =
     Some [\<lparr>Word = [99], Score = - 1\<rparr>, \<lparr>Word = [97], Score = - 31\<rparr>,
           \<lparr>Word = [98], Score = - 31\<rparr>] \<and>
   [99] \<in> Word ` set [\<lparr>Word = [99], Score = - 1\<rparr>, \<lparr>Word = [97], Score = - 31\<rparr>,
           \<lparr>Word = [98], Score = - 31 :: real\<rparr>] \<and>
   GetCandidatesScoredRaw fx_runtime (fx_engine [[97], [98]] [97, 98]) [[97]] 0 =
     Some [\<lparr>Word = [97], Score = - 1\<rparr>, \<lparr>Word = [98], Score = - 21\<rparr>] \<and>
   [97] \<in> Word ` set [\<lparr>Word = [97], Score = - 1\<rparr>, \<lparr>Word = [98], Score = - 21 :: real\<rparr>]"
  using identity_word_in_result [OF fx_std_sort_contract fx_unordered_set_contract fx_query_unknown]
        identity_word_in_result [OF fx_std_sort_contract fx_unordered_set_contract fx_query_known]
        fx_query_unknown fx_query_known
  by (simp add: fx_engine_def fx_model_def)

section \<open>The order of the result\<close>

text \<open>
  C8 (as amended): the list returned by a query is in descending order of score and is a
  permutation of the scored candidates. Nothing is said of the order of candidates of equal
  score: the final sort is \<open>std::sort\<close>.
\<close>

theorem result_sorted_descending:
  assumes "std_sort_contract rt"
      and "GetCandidatesScoredRaw rt sc sentence position = Some out"
  shows "sorted_wrt (\<lambda>a b. Score a \<ge> Score b) out \<and>
         (case InitialCandidates rt sc (sentence ! position) of
            None \<Rightarrow> True
          | Some (candidates, firstLevel) \<Rightarrow>
              if position < length sentence \<and> candidates \<noteq> []
              then mset out = mset (ScoredCandidates rt sc sentence position candidates firstLevel)
              else out = [])"
  using assms
  by (auto simp: GetCandidatesScoredRaw_def std_sort_contract_def
           split: if_splits option.splits prod.splits)

theorem result_sorted_descending_witness:
  "GetCandidatesScoredRaw fx_runtime_rev (fx_engine [[97], [98]] [97, 98]) [[99]] 0 =
     Some [\<lparr>Word = [99], Score = - 1\<rparr>, \<lparr>Word = [98], Score = - 31\<rparr>,
           \<lparr>Word = [97], Score = - 31\<rparr>] \<and>
   sorted_wrt (\<lambda>a b. Score a \<ge> Score b)
      [\<lparr>Word = [99], Score = - 1\<rparr>, \<lparr>Word = [98], Score = - 31\<rparr>,
       \<lparr>Word = [97], Score = - 31 :: real\<rparr>]"
  using result_sorted_descending [OF fx_rev_std_sort_contract fx_query_unknown_rev]
        fx_query_unknown_rev
  by simp

text \<open>
  C8 as stated fails: with a sort that meets the guarantees of \<open>std::sort\<close>, the two
  candidates of score -31 come out in the reverse of the order in which the loop scored
  them; the stable sort of the scored candidates is another list.
\<close>

theorem result_not_stable:
  "std_sort_contract fx_runtime_rev \<and>
   ScoredCandidates fx_runtime_rev (fx_engine [[97], [98]] [97, 98]) [[99]] 0 [[97], [98]] True =
     [\<lparr>Word = [97], Score = - 31\<rparr>, \<lparr>Word = [98], Score = - 31\<rparr>, \<lparr>Word = [99], Score = - 1\<rparr>] \<and>
   GetCandidatesScoredRaw fx_runtime_rev (fx_engine [[97], [98]] [97, 98]) [[99]] 0 =
     Some [\<lparr>Word = [99], Score = - 1\<rparr>, \<lparr>Word = [98], Score = - 31\<rparr>,
           \<lparr>Word = [97], Score = - 31\<rparr>] \<and>
   stable_sort_by_score [\<lparr>Word = [97], Score = - 31\<rparr>, \<lparr>Word = [98], Score = - 31\<rparr>, \<lparr>Word = [99], Score = - 1\<rparr>] =
     [\<lparr>Word = [99], Score = - 1\<rparr>, \<lparr>Word = [97], Score = - 31\<rparr>,
           \<lparr>Word = [98], Score = - 31\<rparr>]"
  using fx_rev_std_sort_contract fx_scored_unknown fx_query_unknown_rev
  by (simp add: stable_sort_by_score_def)

section \<open>The order of the two enumerations\<close>

lemma fx_sizes:
  "CacheSizes (GetWordToId (LangModel (fx_engine [[97, 97], [97, 97, 97]] [97]))) =
     Some (1000, 12)"
proof -
  have v: "GetWordToId (LangModel (fx_engine [[97, 97], [97, 97, 97]] [97])) =
             [[97, 97], [97, 97, 97]]"
    by (simp add: fx_engine_def fx_model_def)
  have n: "length (take 3001 [[97, 97], [97, 97, 97 :: nat]]) = 2"
    by simp
  have s: "sum_list (map length (take 3001 [[97, 97], [97, 97, 97 :: nat]])) = 5"
    by simp
  have len: "length [[97, 97], [97, 97, 97 :: nat]] = 2"
    by simp
  show ?thesis
    unfolding CacheSizes_def v Let_def n s len by simp
qed

lemma fx_fold:
  "foldl (InsertWord fx_runtime)
     (BloomNew fx_runtime 1000 falsePositiveProb, BloomNew fx_runtime 12 falsePositiveProb)
     (GetWordToId (LangModel (fx_engine [[97, 97], [97, 97, 97]] [97]))) =
   (fx_filter {1, 2}, fx_filter {1})"
  by code_simp

lemma fx_built_PrepareCache:
  "PrepareCache fx_runtime (fx_engine [[97, 97], [97, 97, 97]] [97]) = Some fx_built"
  unfolding PrepareCache_def Let_def
  by (simp only: fx_sizes fx_fold option.case prod.case fst_conv snd_conv fx_built_def)

lemma fx_built_Edits2: "Edits2 (LangModel fx_built) [97] True = [[97, 97], [97, 97]]"
  by code_simp

lemma fx_built_Edits:
  "Edits fx_runtime fx_built [97] =
     Some [[97, 97], [97, 97], [97, 97, 97], [97, 97, 97], [97, 97, 97],
           [97, 97, 97], [97, 97, 97], [97, 97, 97]]"
  by code_simp

lemma in_set_Edits2_last:
  "x \<in> set (Edits2 lm w True) \<longleftrightarrow>
     (\<exists>i < length w. x \<in> set (Lookup lm (take i w @ drop (i + 1) w))) \<or>
     (\<exists>i. i + 1 < length w \<and> x \<in> set (Lookup lm (take i w @ [w ! (i + 1), w ! i] @ drop (i + 2) w))) \<or>
     (\<exists>i < length w. \<exists>ch \<in> set (GetAlphabet lm).
         x \<in> set (Lookup lm (take i w @ [ch] @ drop (i + 1) w))) \<or>
     (\<exists>i \<le> length w. \<exists>ch \<in> set (GetAlphabet lm).
         x \<in> set (Lookup lm (take i w @ [ch] @ drop i w)))"
  unfolding Edits2_def Edits2_loop_def Edits2_at_def Let_def
  by (simp del: upt_Suc add: less_Suc_eq_le [symmetric] Bex_def) (auto simp: less_Suc_eq_le)

lemma in_set_edits1_strings:
  "x \<in> set (concat (map (Lookup lm) (edits1_strings (GetAlphabet lm) w))) \<longleftrightarrow>
     (\<exists>i < length w. x \<in> set (Lookup lm (take i w @ drop (i + 1) w))) \<or>
     (\<exists>i. i + 1 < length w \<and> x \<in> set (Lookup lm (take i w @ [w ! (i + 1), w ! i] @ drop (i + 2) w))) \<or>
     (\<exists>i < length w. \<exists>ch \<in> set (GetAlphabet lm).
         x \<in> set (Lookup lm (take i w @ [ch] @ drop (i + 1) w))) \<or>
     (\<exists>i \<le> length w. \<exists>ch \<in> set (GetAlphabet lm).
         x \<in> set (Lookup lm (take i w @ [ch] @ drop i w)))"
  unfolding edits1_strings_def
  by (simp del: upt_Suc add: Bex_def less_diff_conv) (auto simp: less_Suc_eq_le)


lemma Edits2_last_edits1:
  "set (Edits2 lm w True) = set (concat (map (Lookup lm) (edits1_strings (GetAlphabet lm) w)))"
proof (rule set_eqI)
  fix x
  show "x \<in> set (Edits2 lm w True) \<longleftrightarrow>
        x \<in> set (concat (map (Lookup lm) (edits1_strings (GetAlphabet lm) w)))"
    unfolding in_set_Edits2_last in_set_edits1_strings by (rule refl)
qed

lemma InitialCandidates_eq:
  "InitialCandidates rt sc w =
     (if Edits2 (LangModel sc) w True \<noteq> [] then Some (Edits2 (LangModel sc) w True, True)
      else map_option (\<lambda>c. (c, False)) (Edits rt sc w))"
  by (simp add: InitialCandidates_def Let_def)

lemma ScoredCandidates_ignores_filters:
  "ScoredCandidates rt (sc\<lparr>Deletes1 := d1, Deletes2 := d2\<rparr>) sentence position candidates firstLevel =
   ScoredCandidates rt sc sentence position candidates firstLevel"
proof -
  have "ScoreCandidate rt (sc\<lparr>Deletes1 := d1, Deletes2 := d2\<rparr>) = ScoreCandidate rt sc"
    by (intro ext) (simp add: ScoreCandidate_def Let_def)
  moreover have "FilterCandidatesByFrequency rt (sc\<lparr>Deletes1 := d1, Deletes2 := d2\<rparr>) =
                 FilterCandidatesByFrequency rt sc"
    by (intro ext) (simp add: FilterCandidatesByFrequency_def Let_def)
  ultimately show ?thesis
    by (simp add: ScoredCandidates_def)
qed

lemma query_ignores_filters:
  assumes "Edits2 (LangModel sc) (sentence ! position) True \<noteq> []"
  shows "GetCandidatesScoredRaw rt (sc\<lparr>Deletes1 := d1, Deletes2 := d2\<rparr>) sentence position =
         GetCandidatesScoredRaw rt sc sentence position"
  using assms
  by (simp add: GetCandidatesScoredRaw_def InitialCandidates_eq ScoredCandidates_ignores_filters)

text \<open>
  C1 (as amended): candidate generation first runs the one-level enumeration
  (\<open>Edits2\<close> with \<open>lastLevel\<close>: the vocabulary hits among the strings at one delete,
  transposition, replacement or insertion from the word), and runs the symmetric-delete
  enumeration over the bloom filters (\<open>Edits\<close>) only when the first returns no candidate.
  When the first returns candidates the query does not depend on the filters at all.
\<close>

theorem candidate_generation_order:
  "InitialCandidates rt sc w =
     (if Edits2 (LangModel sc) w True \<noteq> [] then Some (Edits2 (LangModel sc) w True, True)
      else map_option (\<lambda>c. (c, False)) (Edits rt sc w)) \<and>
   set (Edits2 (LangModel sc) w True) =
     set (concat (map (Lookup (LangModel sc)) (edits1_strings (GetAlphabet (LangModel sc)) w))) \<and>
   (Edits2 (LangModel sc) (sentence ! position) True \<noteq> [] \<longrightarrow>
      GetCandidatesScoredRaw rt (sc\<lparr>Deletes1 := d1, Deletes2 := d2\<rparr>) sentence position =
      GetCandidatesScoredRaw rt sc sentence position)"
  using InitialCandidates_eq Edits2_last_edits1 query_ignores_filters by blast

lemma fx_built_query:
  "GetCandidatesScoredRaw fx_runtime fx_built [[97]] 0 =
     Some [\<lparr>Word = [97], Score = - 1\<rparr>, \<lparr>Word = [97, 97], Score = - 31\<rparr>]"
  by code_simp

theorem candidate_generation_order_witness:
  "Edits2 (LangModel fx_built) [97] True = [[97, 97], [97, 97]] \<and>
   InitialCandidates fx_runtime fx_built [97] = Some ([[97, 97], [97, 97]], True) \<and>
   GetCandidatesScoredRaw fx_runtime (fx_built\<lparr>Deletes1 := None, Deletes2 := None\<rparr>) [[97]] 0 =
     Some [\<lparr>Word = [97], Score = - 1\<rparr>, \<lparr>Word = [97, 97], Score = - 31\<rparr>]"
  using candidate_generation_order [of fx_runtime fx_built "[97]" "[[97]]" 0 None None]
        fx_built_Edits2 fx_built_query
  by simp

text \<open>
  C1 as stated fails: for the word "a" the symmetric-delete enumeration finds "aa" and
  "aaa", so it would be the primary result; the query generates only what the one-level
  enumeration finds, "aa", and "aaa" is not among the ranked candidates.
\<close>

theorem symmetric_delete_not_first:
  "PrepareCache fx_runtime (fx_engine [[97, 97], [97, 97, 97]] [97]) = Some fx_built \<and>
   Edits fx_runtime fx_built [97] =
     Some [[97, 97], [97, 97], [97, 97, 97], [97, 97, 97], [97, 97, 97],
           [97, 97, 97], [97, 97, 97], [97, 97, 97]] \<and>
   InitialCandidates_spec fx_runtime fx_built [97] =
     Some ([[97, 97], [97, 97], [97, 97, 97], [97, 97, 97], [97, 97, 97],
            [97, 97, 97], [97, 97, 97], [97, 97, 97]], True) \<and>
   InitialCandidates fx_runtime fx_built [97] = Some ([[97, 97], [97, 97]], True) \<and>
   GetCandidatesScoredRaw fx_runtime fx_built [[97]] 0 =
     Some [\<lparr>Word = [97], Score = - 1\<rparr>, \<lparr>Word = [97, 97], Score = - 31\<rparr>]"
  using fx_built_PrepareCache fx_built_Edits fx_built_Edits2 fx_built_query
  by (simp add: InitialCandidates_spec_def InitialCandidates_eq)

section \<open>The filters hold the deletions of the vocabulary\<close>

lemma BloomExtends_refl [simp]: "BloomExtends a a"
  by (simp add: BloomExtends_def)

lemma BloomExtends_trans: "BloomExtends a b \<Longrightarrow> BloomExtends b c \<Longrightarrow> BloomExtends a c"
  by (auto simp: BloomExtends_def)

lemma BloomExtends_Insert [simp]: "BloomExtends a (Insert rt a k)"
  by (auto simp: BloomExtends_def Insert_def)

lemma Contains_Insert [simp]: "Contains rt (Insert rt a k) k"
  by (auto simp: Contains_def Insert_def BloomPositions_def list_all_iff)

lemma Contains_mono: "BloomExtends a b \<Longrightarrow> Contains rt a k \<Longrightarrow> Contains rt b k"
  by (auto simp: Contains_def BloomExtends_def BloomPositions_def list_all_iff)

text \<open>A loop whose steps only extend a filter keeps what one of its steps inserted.\<close>

lemma foldl_extends:
  assumes "\<And>d x. BloomExtends (sel d) (sel (f d x))"
  shows "BloomExtends (sel d) (sel (foldl f d xs))"
proof (induction xs arbitrary: d)
  case Nil
  show ?case by simp
next
  case (Cons x xs)
  from assms [of d x] Cons [of "f d x"] show ?case
    by (auto intro: BloomExtends_trans)
qed

lemma foldl_contains:
  assumes step: "\<And>d x. BloomExtends (sel d) (sel (f d x))"
      and hit: "\<And>d. Contains rt (sel (f d x)) k"
      and mem: "x \<in> set xs"
  shows "Contains rt (sel (foldl f d xs)) k"
  using mem
proof (induction xs arbitrary: d)
  case Nil
  then show ?case by simp
next
  case (Cons y ys)
  show ?case
  proof (cases "x = y")
    case True
    have "Contains rt (sel (f d y)) k"
      using hit True by simp
    moreover have "BloomExtends (sel (f d y)) (sel (foldl f (f d y) ys))"
      using step by (rule foldl_extends)
    ultimately show ?thesis
      by (auto intro: Contains_mono)
  next
    case False
    with Cons show ?thesis by auto
  qed
qed

lemma InsertGroup_extends:
  "BloomExtends (fst ds) (fst (InsertGroup rt ds w1))"
  "BloomExtends (snd ds) (snd (InsertGroup rt ds w1))"
proof -
  show "BloomExtends (fst ds) (fst (InsertGroup rt ds w1))"
    by (simp add: InsertGroup_def split: option.splits)
  have "BloomExtends d (foldl (\<lambda>d2 s. case WideToUTF8 rt s of None \<Rightarrow> d2
                                       | Some k2 \<Rightarrow> Insert rt d2 k2) d ss)" for d ss
    by (rule foldl_extends [where sel = "\<lambda>d. d"]) (simp split: option.splits)
  then show "BloomExtends (snd ds) (snd (InsertGroup rt ds w1))"
    by (simp add: InsertGroup_def split: option.splits)
qed

lemma InsertGroup_last:
  assumes "WideToUTF8 rt (last w1) = Some k"
  shows "Contains rt (fst (InsertGroup rt ds w1)) k"
  using assms by (simp add: InsertGroup_def)

lemma InsertGroup_butlast:
  assumes "WideToUTF8 rt (last w1) = Some k" and "s \<in> set (butlast w1)"
      and "WideToUTF8 rt s = Some k2"
  shows "Contains rt (snd (InsertGroup rt ds w1)) k2"
proof -
  have "Contains rt (foldl (\<lambda>d2 s. case WideToUTF8 rt s of None \<Rightarrow> d2
                                     | Some k2 \<Rightarrow> Insert rt d2 k2) (snd ds) (butlast w1)) k2"
    by (rule foldl_contains [where sel = "\<lambda>d. d" and x = s])
       (simp_all add: assms split: option.splits)
  with assms(1) show ?thesis
    by (simp add: InsertGroup_def)
qed

lemma InsertWord_extends:
  "BloomExtends (fst ds) (fst (InsertWord rt ds word))"
  "BloomExtends (snd ds) (snd (InsertWord rt ds word))"
  unfolding InsertWord_def
  by (rule foldl_extends, rule InsertGroup_extends)+

lemma InsertWord_group_last:
  assumes "w1 \<in> set (GetDeletes2 word)" and "WideToUTF8 rt (last w1) = Some k"
  shows "Contains rt (fst (InsertWord rt ds word)) k"
  unfolding InsertWord_def
  by (rule foldl_contains [where x = w1])
     (simp_all add: InsertGroup_extends InsertGroup_last assms)

lemma InsertWord_group_butlast:
  assumes "w1 \<in> set (GetDeletes2 word)" and "WideToUTF8 rt (last w1) = Some k"
      and "s \<in> set (butlast w1)" and "WideToUTF8 rt s = Some k2"
  shows "Contains rt (snd (InsertWord rt ds word)) k2"
  unfolding InsertWord_def
  by (rule foldl_contains [where x = w1])
     (simp_all add: InsertGroup_extends InsertGroup_butlast [OF assms(2,3,4)] assms(1))

lemma GetDeletes1_set: "set (GetDeletes1 w) = set (deletions1 w) - {[]}"
  by (auto simp: GetDeletes1_def deletions1_def Let_def)

lemma GetDeletes2_group:
  assumes "d \<in> set (deletions1 w)" and "d \<noteq> []"
  shows "GetDeletes1 d @ [d] \<in> set (GetDeletes2 w)"
  using assms by (auto simp: GetDeletes2_def deletions1_def Let_def)


lemma foldl_ConvertedKeys:
  "foldl (\<lambda>d2 s. case WideToUTF8 rt s of None \<Rightarrow> d2 | Some k2 \<Rightarrow> Insert rt d2 k2) d ss =
   foldl (Insert rt) d (ConvertedKeys rt ss)"
  by (induction ss arbitrary: d) (simp_all add: ConvertedKeys_def split: option.splits)

lemma InsertGroup_eq:
  "InsertGroup rt ds w1 =
     (foldl (Insert rt) (fst ds) (ConvertedKeys rt [last w1]),
      foldl (Insert rt) (snd ds)
        (if WideToUTF8 rt (last w1) = None then [] else ConvertedKeys rt (butlast w1)))"
  by (auto simp: InsertGroup_def foldl_ConvertedKeys ConvertedKeys_def split: option.splits)

lemma foldl_pair:
  assumes "\<And>ds x. f ds x = (foldl I (fst ds) (g1 x), foldl J (snd ds) (g2 x))"
  shows "foldl f ds xs =
           (foldl I (fst ds) (concat (map g1 xs)), foldl J (snd ds) (concat (map g2 xs)))"
proof (induction xs arbitrary: ds)
  case Nil
  show ?case by simp
next
  case (Cons x xs)
  show ?case
    by (simp add: Cons [of "f ds x"]) (simp add: assms)
qed

lemma concat_map_filter:
  "concat (map (\<lambda>x. if P (f x) then [g (f x)] else []) xs) = map g (filter P (map f xs))"
  by (induction xs) simp_all

lemma GetDeletes1_eq: "GetDeletes1 w = filter (\<lambda>d. d \<noteq> []) (deletions1 w)"
  using concat_map_filter [of "\<lambda>d. d \<noteq> []" "\<lambda>i. take i w @ drop (Suc i) w" "\<lambda>d. d" "[0..<length w]"]
  by (simp add: GetDeletes1_def deletions1_def Let_def)

lemma GetDeletes2_eq:
  "GetDeletes2 w = map (\<lambda>d. GetDeletes1 d @ [d]) (filter (\<lambda>d. d \<noteq> []) (deletions1 w))"
  using concat_map_filter [of "\<lambda>d. d \<noteq> []" "\<lambda>i. take i w @ drop (Suc i) w"
          "\<lambda>d. GetDeletes1 d @ [d]" "[0..<length w]"]
  by (simp add: GetDeletes2_def deletions1_def Let_def)

lemma InsertWord_eq:
  "InsertWord rt ds w =
     (foldl (Insert rt) (fst ds) (ConvertedKeys rt (filter (\<lambda>d. d \<noteq> []) (deletions1 w))),
      foldl (Insert rt) (snd ds)
        (concat (map (\<lambda>d. if WideToUTF8 rt d = None then []
                          else ConvertedKeys rt (filter (\<lambda>d2. d2 \<noteq> []) (deletions1 d)))
                    (filter (\<lambda>d. d \<noteq> []) (deletions1 w)))))"
  unfolding InsertWord_def
  by (subst foldl_pair [where f = "InsertGroup rt", OF InsertGroup_eq])
     (simp add: GetDeletes2_eq GetDeletes1_eq comp_def ConvertedKeys_def cong: if_cong)

lemma foldl_InsertWord_eq:
  "foldl (InsertWord rt) ds vocabulary =
     (foldl (Insert rt) (fst ds) (InsertedKeys1 rt vocabulary),
      foldl (Insert rt) (snd ds) (InsertedKeys2 rt vocabulary))"
  unfolding InsertedKeys1_def InsertedKeys2_def
  by (rule foldl_pair) (rule InsertWord_eq)

lemma CacheSizes_Some:
  "wordToId \<noteq> [] \<Longrightarrow> \<exists>sizes. CacheSizes wordToId = Some sizes"
  by (cases wordToId) (simp_all add: CacheSizes_def Let_def)

lemma PrepareCache_Some:
  assumes "GetWordToId (LangModel sc) \<noteq> []"
  obtains n1 n2 where
    "CacheSizes (GetWordToId (LangModel sc)) = Some (n1, n2)"
    "PrepareCache rt sc =
       Some (sc\<lparr>Deletes1 := Some (fst (foldl (InsertWord rt)
                        (BloomNew rt n1 falsePositiveProb, BloomNew rt n2 falsePositiveProb)
                        (GetWordToId (LangModel sc)))),
                 Deletes2 := Some (snd (foldl (InsertWord rt)
                        (BloomNew rt n1 falsePositiveProb, BloomNew rt n2 falsePositiveProb)
                        (GetWordToId (LangModel sc))))\<rparr>)"
proof -
  from CacheSizes_Some [OF assms] obtain n1 n2
    where sizes: "CacheSizes (GetWordToId (LangModel sc)) = Some (n1, n2)"
    by fastforce
  then have "PrepareCache rt sc =
       Some (sc\<lparr>Deletes1 := Some (fst (foldl (InsertWord rt)
                        (BloomNew rt n1 falsePositiveProb, BloomNew rt n2 falsePositiveProb)
                        (GetWordToId (LangModel sc)))),
                 Deletes2 := Some (snd (foldl (InsertWord rt)
                        (BloomNew rt n1 falsePositiveProb, BloomNew rt n2 falsePositiveProb)
                        (GetWordToId (LangModel sc))))\<rparr>)"
    by (simp add: PrepareCache_def Let_def)
  with sizes show thesis by (rule that)
qed

lemma deletions1_nonempty: "2 \<le> length w \<Longrightarrow> [] \<notin> set (deletions1 w)"
  by (auto simp: deletions1_def)

lemma deletions1_length: "d \<in> set (deletions1 w) \<Longrightarrow> length d = length w - 1"
  by (auto simp: deletions1_def)

lemma deletions2_length: "d \<in> set (deletions2 w) \<Longrightarrow> length d = length w - 2"
  by (auto simp: deletions2_def dest!: deletions1_length)

text \<open>
  C2 (as amended): cache construction over a vocabulary that holds \<open>w\<close> returns, and it
  inserts into \<open>Deletes1\<close> exactly the keys of the non-empty single-character deletions of
  the vocabulary words that convert to UTF-8, and into \<open>Deletes2\<close> exactly the keys of the
  non-empty single-character deletions, that convert, of those single deletions that are
  non-empty and convert; the empty string is never inserted. Hence every non-empty
  single-character deletion of \<open>w\<close> that converts is reported as contained by
  \<open>Deletes1\<close>, and every non-empty single-character deletion of such a deletion that
  converts (a two-character deletion of \<open>w\<close>) is reported as contained by \<open>Deletes2\<close>.
  The single deletions of a word of length at least 2 and the double deletions of a word of
  length at least 3 are not empty.
\<close>

theorem PrepareCache_reports_deletions:
  assumes "w \<in> set (GetWordToId (LangModel sc))"
  shows "\<exists>sc' n1 n2.
           PrepareCache rt sc = Some sc' \<and>
           CacheSizes (GetWordToId (LangModel sc)) = Some (n1, n2) \<and>
           Deletes1 sc' =
             Some (foldl (Insert rt) (BloomNew rt n1 falsePositiveProb)
                     (InsertedKeys1 rt (GetWordToId (LangModel sc)))) \<and>
           Deletes2 sc' =
             Some (foldl (Insert rt) (BloomNew rt n2 falsePositiveProb)
                     (InsertedKeys2 rt (GetWordToId (LangModel sc)))) \<and>
           (\<forall>d \<in> set (deletions1 w). d \<noteq> [] \<and> WideToUTF8 rt d \<noteq> None \<longrightarrow>
              Reports rt (Deletes1 sc') d \<and>
              (\<forall>d2 \<in> set (deletions1 d). d2 \<noteq> [] \<and> WideToUTF8 rt d2 \<noteq> None \<longrightarrow>
                 Reports rt (Deletes2 sc') d2)) \<and>
           (2 \<le> length w \<longrightarrow> [] \<notin> set (deletions1 w)) \<and>
           (3 \<le> length w \<longrightarrow> [] \<notin> set (deletions2 w))"
proof -
  from assms have "GetWordToId (LangModel sc) \<noteq> []" by auto
  then obtain n1 n2 where
    sizes: "CacheSizes (GetWordToId (LangModel sc)) = Some (n1, n2)" and
    prep: "PrepareCache rt sc =
       Some (sc\<lparr>Deletes1 := Some (fst (foldl (InsertWord rt)
                        (BloomNew rt n1 falsePositiveProb, BloomNew rt n2 falsePositiveProb)
                        (GetWordToId (LangModel sc)))),
                 Deletes2 := Some (snd (foldl (InsertWord rt)
                        (BloomNew rt n1 falsePositiveProb, BloomNew rt n2 falsePositiveProb)
                        (GetWordToId (LangModel sc))))\<rparr>)"
    by (rule PrepareCache_Some)
  let ?ds = "foldl (InsertWord rt)
               (BloomNew rt n1 falsePositiveProb, BloomNew rt n2 falsePositiveProb)
               (GetWordToId (LangModel sc))"
  have exact:
    "fst ?ds = foldl (Insert rt) (BloomNew rt n1 falsePositiveProb)
                 (InsertedKeys1 rt (GetWordToId (LangModel sc)))"
    "snd ?ds = foldl (Insert rt) (BloomNew rt n2 falsePositiveProb)
                 (InsertedKeys2 rt (GetWordToId (LangModel sc)))"
    by (simp_all add: foldl_InsertWord_eq)
  have single: "Contains rt (fst ?ds) k"
    if "d \<in> set (deletions1 w)" "d \<noteq> []" "WideToUTF8 rt d = Some k" for d k
  proof (rule foldl_contains [where x = w])
    show "BloomExtends (fst ds) (fst (InsertWord rt ds word))" for ds word
      by (rule InsertWord_extends)
    show "Contains rt (fst (InsertWord rt ds w)) k" for ds
      using GetDeletes2_group [OF that(1,2)] that(3)
      by (intro InsertWord_group_last [where ?w1.0 = "GetDeletes1 d @ [d]"]) simp_all
    show "w \<in> set (GetWordToId (LangModel sc))" by (rule assms)
  qed
  have double: "Contains rt (snd ?ds) k2"
    if "d \<in> set (deletions1 w)" "d \<noteq> []" "WideToUTF8 rt d = Some k"
       "d2 \<in> set (deletions1 d)" "d2 \<noteq> []" "WideToUTF8 rt d2 = Some k2" for d k d2 k2
  proof (rule foldl_contains [where x = w])
    show "BloomExtends (snd ds) (snd (InsertWord rt ds word))" for ds word
      by (rule InsertWord_extends)
    show "Contains rt (snd (InsertWord rt ds w)) k2" for ds
      using GetDeletes2_group [OF that(1,2)] that(3,4,5,6)
      by (intro InsertWord_group_butlast [where ?w1.0 = "GetDeletes1 d @ [d]" and s = d2])
         (simp_all add: GetDeletes1_set)
    show "w \<in> set (GetWordToId (LangModel sc))" by (rule assms)
  qed
  have empty2: "[] \<notin> set (deletions2 w)" if "3 \<le> length w"
    using that deletions2_length [of "[]" w] by auto
  let ?sc' = "sc\<lparr>Deletes1 := Some (fst ?ds), Deletes2 := Some (snd ?ds)\<rparr>"
  have reports:
    "\<forall>d \<in> set (deletions1 w). d \<noteq> [] \<and> WideToUTF8 rt d \<noteq> None \<longrightarrow>
        Reports rt (Deletes1 ?sc') d \<and>
        (\<forall>d2 \<in> set (deletions1 d). d2 \<noteq> [] \<and> WideToUTF8 rt d2 \<noteq> None \<longrightarrow>
           Reports rt (Deletes2 ?sc') d2)"
    using single double by (auto simp: Reports_def)
  have "PrepareCache rt sc = Some ?sc' \<and>
        CacheSizes (GetWordToId (LangModel sc)) = Some (n1, n2) \<and>
        Deletes1 ?sc' =
          Some (foldl (Insert rt) (BloomNew rt n1 falsePositiveProb)
                  (InsertedKeys1 rt (GetWordToId (LangModel sc)))) \<and>
        Deletes2 ?sc' =
          Some (foldl (Insert rt) (BloomNew rt n2 falsePositiveProb)
                  (InsertedKeys2 rt (GetWordToId (LangModel sc))))"
    using prep sizes exact by simp
  with reports deletions1_nonempty [of w] empty2 show ?thesis
    by blast
qed

lemma fx_abc_keys:
  "InsertedKeys1 fx_runtime [[97, 98, 99]] = [''bc'', ''ac'', ''ab''] \<and>
   InsertedKeys2 fx_runtime [[97, 98, 99]] = [''c'', ''b'', ''c'', ''a'', ''b'', ''a'']"
  by code_simp

theorem PrepareCache_reports_deletions_witness:
  "[97, 98, 99] \<in> set (GetWordToId (LangModel (fx_engine [[97, 98, 99]] [97]))) \<and>
   InsertedKeys1 fx_runtime [[97, 98, 99]] = [''bc'', ''ac'', ''ab''] \<and>
   InsertedKeys2 fx_runtime [[97, 98, 99]] = [''c'', ''b'', ''c'', ''a'', ''b'', ''a''] \<and>
   (\<exists>sc'. PrepareCache fx_runtime (fx_engine [[97, 98, 99]] [97]) = Some sc' \<and>
      Reports fx_runtime (Deletes1 sc') [97, 99] \<and>
      Reports fx_runtime (Deletes2 sc') [97])"
proof -
  have mem: "[97, 98, 99] \<in> set (GetWordToId (LangModel (fx_engine [[97, 98, 99]] [97])))"
    by (simp add: fx_engine_def fx_model_def)
  have d1: "[97, 99] \<in> set (deletions1 [97, 98, 99])"
    by (simp add: deletions1_def upt_rec)
  have d2: "[97] \<in> set (deletions1 [97, 99])"
    by (simp add: deletions1_def upt_rec)
  have conv: "WideToUTF8 fx_runtime [97, 99] \<noteq> None" "WideToUTF8 fx_runtime [97] \<noteq> None"
    by (simp_all add: fx_runtime_def fx_utf8_def)
  from PrepareCache_reports_deletions [OF mem, of fx_runtime] d1 d2 conv
  have "\<exists>sc'. PrepareCache fx_runtime (fx_engine [[97, 98, 99]] [97]) = Some sc' \<and>
      Reports fx_runtime (Deletes1 sc') [97, 99] \<and>
      Reports fx_runtime (Deletes2 sc') [97]"
    by fastforce
  with mem fx_abc_keys show ?thesis by blast
qed

lemma fx_ab_sizes:
  "CacheSizes (GetWordToId (LangModel (fx_engine [[97, 98]] [97]))) = Some (1000, 6)"
proof -
  have v: "GetWordToId (LangModel (fx_engine [[97, 98]] [97])) = [[97, 98]]"
    by (simp add: fx_engine_def fx_model_def)
  have n: "length (take 3001 [[97, 98 :: nat]]) = 1"
    by simp
  have s: "sum_list (map length (take 3001 [[97, 98 :: nat]])) = 2"
    by simp
  have len: "length [[97, 98 :: nat]] = 1"
    by simp
  show ?thesis
    unfolding CacheSizes_def v Let_def n s len by simp
qed

lemma fx_ab_fold:
  "foldl (InsertWord fx_runtime)
     (BloomNew fx_runtime 1000 falsePositiveProb, BloomNew fx_runtime 6 falsePositiveProb)
     (GetWordToId (LangModel (fx_engine [[97, 98]] [97]))) =
   (fx_filter {1}, fx_filter {})"
  by code_simp

lemma fx_ab_prepared:
  "PrepareCache fx_runtime (fx_engine [[97, 98]] [97]) =
     Some (fx_engine [[97, 98]] [97]
             \<lparr>Deletes1 := Some (fx_filter {1}), Deletes2 := Some (fx_filter {})\<rparr>)"
  unfolding PrepareCache_def Let_def
  by (simp only: fx_ab_sizes fx_ab_fold option.case prod.case fst_conv snd_conv)

lemma fx_xya_sizes:
  "CacheSizes (GetWordToId (LangModel (fx_engine [[200, 201, 97]] [97]))) = Some (1000, 12)"
proof -
  have v: "GetWordToId (LangModel (fx_engine [[200, 201, 97]] [97])) = [[200, 201, 97]]"
    by (simp add: fx_engine_def fx_model_def)
  have n: "length (take 3001 [[200, 201, 97 :: nat]]) = 1"
    by simp
  have s: "sum_list (map length (take 3001 [[200, 201, 97 :: nat]])) = 3"
    by simp
  have len: "length [[200, 201, 97 :: nat]] = 1"
    by simp
  show ?thesis
    unfolding CacheSizes_def v Let_def n s len by simp
qed

lemma fx_xya_fold:
  "foldl (InsertWord fx_runtime)
     (BloomNew fx_runtime 1000 falsePositiveProb, BloomNew fx_runtime 12 falsePositiveProb)
     (GetWordToId (LangModel (fx_engine [[200, 201, 97]] [97]))) =
   (fx_filter {}, fx_filter {})"
  by code_simp

lemma fx_xya_prepared:
  "PrepareCache fx_runtime (fx_engine [[200, 201, 97]] [97]) =
     Some (fx_engine [[200, 201, 97]] [97]
             \<lparr>Deletes1 := Some (fx_filter {}), Deletes2 := Some (fx_filter {})\<rparr>)"
  unfolding PrepareCache_def Let_def
  by (simp only: fx_xya_sizes fx_xya_fold option.case prod.case fst_conv snd_conv)

text \<open>
  C2 as stated fails in two ways. For the word "ab" of length 2 the two-character deletion
  is the empty string, which \<open>GetDeletes1\<close> leaves out: nothing is inserted into
  \<open>Deletes2\<close> and the filter does not report it. For a word of three code points of which
  the first two do not convert, the two-character deletion "a" converts, but each single
  deletion it comes from fails to convert, so its group is skipped and \<open>Deletes2\<close> does not
  report "a".
\<close>

theorem deletion_not_reported:
  "[97, 98] \<in> set (GetWordToId (LangModel (fx_engine [[97, 98]] [97]))) \<and>
   2 \<le> length [97, 98 :: nat] \<and>
   [] \<in> set (deletions2 [97, 98]) \<and>
   PrepareCache fx_runtime (fx_engine [[97, 98]] [97]) =
     Some (fx_engine [[97, 98]] [97]
             \<lparr>Deletes1 := Some (fx_filter {1}), Deletes2 := Some (fx_filter {})\<rparr>) \<and>
   \<not> Reports fx_runtime (Some (fx_filter {})) [] \<and>
   [200, 201, 97] \<in> set (GetWordToId (LangModel (fx_engine [[200, 201, 97]] [97]))) \<and>
   2 \<le> length [200, 201, 97 :: nat] \<and>
   [97] \<in> set (deletions2 [200, 201, 97]) \<and>
   WideToUTF8 fx_runtime [97] = Some ''a'' \<and>
   PrepareCache fx_runtime (fx_engine [[200, 201, 97]] [97]) =
     Some (fx_engine [[200, 201, 97]] [97]
             \<lparr>Deletes1 := Some (fx_filter {}), Deletes2 := Some (fx_filter {})\<rparr>) \<and>
   \<not> Reports fx_runtime (Some (fx_filter {})) [97]"
proof -
  have "[] \<in> set (deletions2 [97, 98])" "[97] \<in> set (deletions2 [200, 201, 97])"
    by (simp_all add: deletions2_def deletions1_def upt_rec)
  moreover have "WideToUTF8 fx_runtime [97] = Some ''a''"
    by code_simp
  moreover have "\<not> Reports fx_runtime (Some (fx_filter {})) []"
      "\<not> Reports fx_runtime (Some (fx_filter {})) [97]"
    by (simp_all add: Reports_def fx_runtime_def fx_utf8_def Contains_def BloomPositions_def
          fx_filter_def)
  ultimately show ?thesis
    using fx_ab_prepared fx_xya_prepared
    by (simp add: fx_engine_def fx_model_def)
qed

end
